theory Spec2Isabelle
  imports Complex_Main "HOL-Library.Sublist"
begin

section \<open>Values, frames and the cursor\<close>

text \<open>
  The Python values that \<open>etl.py\<close> reads from a frame and hands to the cursor:
  \<open>None\<close>, integers, floats, strings, a pandas \<open>Timestamp\<close> (nanoseconds since the
  epoch), a \<open>datetime.time\<close> (hour, minute, second, microsecond) and a
  \<open>numpy.int64\<close>, which is no Python \<open>int\<close>. A finite float is kept as the decimal
  numeral it was read from, digits and exponent of ten; the rounding to 53 bits is not
  modelled. A \<open>numpy.float64\<close> is a Python float and is not told apart from one.
\<close>

datatype pyval =
    PyNone
  | PyInt int
  | PyFloat int int
  | PyNaN
  | PyInf bool
  | PyStr string
  | Timestamp int
  | Time int int int int
  | NumpyInt64 int

text \<open>
  One row of the frame that \<open>pd.read_json(filepath, lines=True)\<close> yields for a log
  file, with the columns that \<open>process_log_file\<close> reads. The column \<open>ts\<close> is an integer column: milliseconds since the epoch as read,
  and the nanoseconds of the \<open>datetime64[ns]\<close> value once the script has overwritten
  it with \<open>pd.to_datetime(df['ts'], unit='ms').dt.ceil(freq='s')\<close>. The column
  \<open>length\<close> is written \<open>length_f\<close>.
\<close>

record event =
  page :: pyval
  ts :: int
  userId :: pyval
  firstName :: pyval
  lastName :: pyval
  gender :: pyval
  level :: pyval
  song :: pyval
  artist :: pyval
  length_f :: pyval
  sessionId :: pyval
  location :: pyval
  userAgent :: pyval

text \<open>
  The statements of \<open>sql_queries\<close>, by the names \<open>etl.py\<close> imports them under. Their
  SQL text is not part of \<open>etl.py\<close>; what the database does with a statement is the
  parameter \<open>db\<close> below.
\<close>

datatype statement =
    song_table_insert
  | artist_table_insert
  | time_table_insert
  | user_table_insert
  | songplay_table_insert
  | song_select

datatype error = KeyError | IndexError | ValueError | DatabaseError

datatype 'a outcome = Returned 'a | Raised error

text \<open>
  The cursor: every statement it has executed, oldest first, with its parameters, and
  the rows of the last result that have not been fetched yet.
\<close>

record cursor =
  executed :: "(statement \<times> pyval list) list"
  pending :: "pyval list list"

text \<open>
  The database behind the cursor: given the statements executed so far, a statement and
  its parameters, it either raises or yields the rows of the result (none for an insert).
\<close>

type_synonym database =
  "(statement \<times> pyval list) list \<Rightarrow> statement \<Rightarrow> pyval list \<Rightarrow> error + pyval list list"

definition execute :: "database \<Rightarrow> statement \<Rightarrow> pyval list \<Rightarrow> cursor \<Rightarrow> unit outcome \<times> cursor" where
  "execute db stmt params cur =
     (case db (executed cur) stmt params of
        Inl e \<Rightarrow> (Raised e, cur)
      | Inr rows \<Rightarrow>
          (Returned (), \<lparr>executed = executed cur @ [(stmt, params)], pending = rows\<rparr>))"

definition fetchone :: "cursor \<Rightarrow> pyval list option \<times> cursor" where
  "fetchone cur =
     (case pending cur of
        [] \<Rightarrow> (None, cur)
      | r # rs \<Rightarrow> (Some r, cur\<lparr>pending := rs\<rparr>))"

text \<open>
  \<open>for i, row in frame.iterrows(): cur.execute(stmt, row)\<close>: the rows in order, stopping
  at the first statement that raises.
\<close>

fun execute_rows :: "database \<Rightarrow> statement \<Rightarrow> pyval list list \<Rightarrow> cursor \<Rightarrow> unit outcome \<times> cursor" where
  "execute_rows db stmt [] cur = (Returned (), cur)"
| "execute_rows db stmt (row # rows) cur =
     (case execute db stmt row cur of
        (Raised e, cur') \<Rightarrow> (Raised e, cur')
      | (Returned u, cur') \<Rightarrow> execute_rows db stmt rows cur')"

section \<open>process_song_file\<close>

subsection \<open>The frame of a song file\<close>

text \<open>
  A line of a song file is a flat JSON object: its keys with their values, which are
  null, integers, floats (the decimal numeral as written) and strings.
\<close>

datatype json = JNull | JInt int | JFloat int int | JStr string

type_synonym json_record = "string \<Rightarrow> json option"

text \<open>A float: finite, not a number, or an infinity (\<open>True\<close> for the positive one).\<close>

datatype pyfloat = Dec int int | NaN | Infinity bool

text \<open>
  \<open>pd.read_json(filepath, lines=True)\<close> builds one column for every key that occurs in
  some record and then converts each column on its own, looking at all its cells
  (\<open>dtype=True\<close>): it tries \<open>astype('float64')\<close> on the column, and on a float column
  \<open>astype('int64')\<close>, which it keeps when no value changes. A column stays a column of
  Python objects only when one of its strings is not a number.

  The cell of a record without the key is not a number; so is null, once the column is
  a float column. What Python's \<open>float\<close> makes of a string is the parameter
  \<open>float_of_str\<close> (\<open>None\<close> when it raises). The 64-bit range of the integers is not
  modelled, nor are the keys that \<open>read_json\<close> reads as dates: no column of
  \<open>etl.py\<close> has such a name.
\<close>

fun astype_float64 :: "(string \<Rightarrow> pyfloat option) \<Rightarrow> json option \<Rightarrow> pyfloat option" where
  "astype_float64 float_of_str None = Some NaN"
| "astype_float64 float_of_str (Some JNull) = Some NaN"
| "astype_float64 float_of_str (Some (JInt n)) = Some (Dec n 0)"
| "astype_float64 float_of_str (Some (JFloat m e)) = Some (Dec m e)"
| "astype_float64 float_of_str (Some (JStr s)) = float_of_str s"

text \<open>The integer that a float is equal to, if there is one.\<close>

fun astype_int64 :: "pyfloat \<Rightarrow> int option" where
  "astype_int64 (Dec m e) =
     (if 0 \<le> e then Some (m * 10 ^ nat e)
      else if m mod 10 ^ nat (- e) = 0 then Some (m div 10 ^ nat (- e))
      else None)"
| "astype_int64 NaN = None"
| "astype_int64 (Infinity positive) = None"

text \<open>The cell as the Python object that a column of objects holds.\<close>

fun python_object :: "json option \<Rightarrow> pyval" where
  "python_object None = PyNaN"
| "python_object (Some JNull) = PyNone"
| "python_object (Some (JInt n)) = PyInt n"
| "python_object (Some (JFloat m e)) = PyFloat m e"
| "python_object (Some (JStr s)) = PyStr s"

datatype column = Int64 "int list" | Float64 "pyfloat list" | Object "pyval list"

definition read_json_column ::
    "(string \<Rightarrow> pyfloat option) \<Rightarrow> json_record list \<Rightarrow> string \<Rightarrow> column" where
  "read_json_column float_of_str records c =
     (let cells = map (\<lambda>r. r c) records
      in case those (map (astype_float64 float_of_str) cells) of
           None \<Rightarrow> Object (map python_object cells)
         | Some floats \<Rightarrow>
             (case those (map astype_int64 floats) of
                None \<Rightarrow> Float64 floats
              | Some ints \<Rightarrow> Int64 ints))"

text \<open>
  A frame: the number of its rows and the columns selected from it.
  \<open>df[[c1, ..., ck]]\<close> raises \<open>KeyError\<close> unless every name is a column of the frame,
  that is, a key of some record; a file without records has a frame without columns.
\<close>

record frame =
  nrows :: nat
  columns :: "column list"

definition has_column :: "json_record list \<Rightarrow> string \<Rightarrow> bool" where
  "has_column records c = list_ex (\<lambda>r. r c \<noteq> None) records"

definition getitem ::
    "(string \<Rightarrow> pyfloat option) \<Rightarrow> json_record list \<Rightarrow> string list \<Rightarrow> error + frame" where
  "getitem float_of_str records cols =
     (if list_all (has_column records) cols
      then Inr \<lparr>nrows = length records,
                columns = map (read_json_column float_of_str records) cols\<rparr>
      else Inl KeyError)"

text \<open>
  \<open>frame.values\<close>: the rows of the frame as one array in the common type of its
  columns. Columns of \<open>int64\<close> alone give \<open>numpy.int64\<close> scalars, columns of numbers
  floats; with a column of objects among them the array holds Python objects, an
  \<open>int\<close> for a cell of an \<open>int64\<close> column.
\<close>

fun float_scalar :: "pyfloat \<Rightarrow> pyval" where
  "float_scalar (Dec m e) = PyFloat m e"
| "float_scalar NaN = PyNaN"
| "float_scalar (Infinity positive) = PyInf positive"

fun is_Int64 :: "column \<Rightarrow> bool" where
  "is_Int64 (Int64 ns) = True"
| "is_Int64 col = False"

fun is_numeric :: "column \<Rightarrow> bool" where
  "is_numeric (Object vs) = False"
| "is_numeric col = True"

fun int64_scalars :: "column \<Rightarrow> pyval list" where
  "int64_scalars (Int64 ns) = map NumpyInt64 ns"
| "int64_scalars (Float64 fs) = map float_scalar fs"
| "int64_scalars (Object vs) = vs"

fun float64_scalars :: "column \<Rightarrow> pyval list" where
  "float64_scalars (Int64 ns) = map (\<lambda>n. PyFloat n 0) ns"
| "float64_scalars (Float64 fs) = map float_scalar fs"
| "float64_scalars (Object vs) = vs"

fun python_objects :: "column \<Rightarrow> pyval list" where
  "python_objects (Int64 ns) = map PyInt ns"
| "python_objects (Float64 fs) = map float_scalar fs"
| "python_objects (Object vs) = vs"

definition dot_values :: "frame \<Rightarrow> pyval list list" where
  "dot_values df =
     (let scalars =
        (if list_all is_Int64 (columns df) then int64_scalars
         else if list_all is_numeric (columns df) then float64_scalars
         else python_objects)
      in map (\<lambda>i. map (\<lambda>col. scalars col ! i) (columns df)) [0..<nrows df])"

text \<open>\<open>array[0]\<close>: the first row, or \<open>IndexError\<close> on an array without rows.\<close>

definition values0 :: "'a list \<Rightarrow> error + 'a" where
  "values0 rows = (case rows of [] \<Rightarrow> Inl IndexError | r # _ \<Rightarrow> Inr r)"

subsection \<open>The function\<close>

definition song_columns :: "string list" where
  "song_columns = [''song_id'', ''title'', ''artist_id'', ''year'', ''duration'']"

definition artist_columns :: "string list" where
  "artist_columns =
     [''artist_id'', ''artist_name'', ''artist_location'', ''artist_latitude'',
      ''artist_longitude'']"

text \<open>
  \<open>list(df[[...]].values[0])\<close>, for the song row and, once the song row is written,
  for the artist row.
\<close>

definition first_row ::
    "(string \<Rightarrow> pyfloat option) \<Rightarrow> json_record list \<Rightarrow> string list \<Rightarrow> error + pyval list" where
  "first_row float_of_str records cols =
     (case getitem float_of_str records cols of
        Inl e \<Rightarrow> Inl e
      | Inr df \<Rightarrow> values0 (dot_values df))"

definition process_song_file ::
    "(string \<Rightarrow> pyfloat option) \<Rightarrow> database \<Rightarrow> json_record list \<Rightarrow> cursor \<Rightarrow>
     unit outcome \<times> cursor" where
  "process_song_file float_of_str db records cur =
     (case first_row float_of_str records song_columns of
        Inl e \<Rightarrow> (Raised e, cur)
      | Inr song_data \<Rightarrow>
          (case execute db song_table_insert song_data cur of
             (Raised e, cur1) \<Rightarrow> (Raised e, cur1)
           | (Returned u, cur1) \<Rightarrow>
               (case first_row float_of_str records artist_columns of
                  Inl e \<Rightarrow> (Raised e, cur1)
                | Inr artist_data \<Rightarrow> execute db artist_table_insert artist_data cur1)))"



section \<open>process_log_file\<close>

subsection \<open>Filtering and the timestamp column\<close>

text \<open>\<open>df = df[df['page'] == 'NextSong']\<close>\<close>

definition filter_NextSong :: "event list \<Rightarrow> event list" where
  "filter_NextSong df = filter (\<lambda>e. page e = PyStr ''NextSong'') df"

text \<open>
  \<open>pd.to_datetime(ms, unit='ms')\<close> on an integer: the instant in nanoseconds.
  \<open>.dt.ceil(freq='s')\<close>: the instant moved up to the next multiple of a second unless
  it is one already. Python's integers are unbounded and so are these; the 64-bit range
  of a pandas timestamp (years 1677 to 2262) is not modelled.
\<close>

definition to_datetime_ms :: "int \<Rightarrow> int" where
  "to_datetime_ms ms = ms * 1000000"

definition ceil_s :: "int \<Rightarrow> int" where
  "ceil_s ns =
     (let unit = 1000000000; remainder = ns mod unit
      in if remainder = 0 then ns else ns + (unit - remainder))"

text \<open>\<open>df['ts'] = pd.to_datetime(df['ts'], unit='ms').dt.ceil(freq='s')\<close>\<close>

definition convert_ts :: "event list \<Rightarrow> event list" where
  "convert_ts df = map (\<lambda>e. e\<lparr>ts := ceil_s (to_datetime_ms (ts e))\<rparr>) df"

subsection \<open>The \<open>.dt\<close> accessors\<close>

text \<open>
  The calendar fields of an instant given in nanoseconds since 1970-01-01T00:00:00, in
  the proleptic Gregorian calendar, as pandas computes them. Division and remainder are
  the flooring ones, as in Python.
\<close>

definition dt_seconds :: "int \<Rightarrow> int" where
  "dt_seconds ns = ns div 1000000000"

definition dt_days :: "int \<Rightarrow> int" where
  "dt_days ns = dt_seconds ns div 86400"

definition dt_hour :: "int \<Rightarrow> int" where
  "dt_hour ns = (dt_seconds ns mod 86400) div 3600"

definition dt_minute :: "int \<Rightarrow> int" where
  "dt_minute ns = (dt_seconds ns mod 3600) div 60"

definition dt_second :: "int \<Rightarrow> int" where
  "dt_second ns = dt_seconds ns mod 60"

definition dt_microsecond :: "int \<Rightarrow> int" where
  "dt_microsecond ns = (ns mod 1000000000) div 1000"

definition dt_time :: "int \<Rightarrow> pyval" where
  "dt_time ns = Time (dt_hour ns) (dt_minute ns) (dt_second ns) (dt_microsecond ns)"

text \<open>Year, month and day of a day number (days since 1970-01-01).\<close>

definition civil_from_days :: "int \<Rightarrow> int \<times> int \<times> int" where
  "civil_from_days d =
     (let z = d + 719468;
          era = z div 146097;
          doe = z - era * 146097;
          yoe = (doe - doe div 1460 + doe div 36524 - doe div 146096) div 365;
          doy = doe - (365 * yoe + yoe div 4 - yoe div 100);
          mp = (5 * doy + 2) div 153;
          dd = doy - (153 * mp + 2) div 5 + 1;
          mm = (if mp < 10 then mp + 3 else mp - 9);
          yy = yoe + era * 400 + (if mm \<le> 2 then 1 else 0)
      in (yy, mm, dd))"

text \<open>The day number of a date.\<close>

definition days_from_civil :: "int \<Rightarrow> int \<Rightarrow> int \<Rightarrow> int" where
  "days_from_civil y m d =
     (let y' = (if m \<le> 2 then y - 1 else y);
          era = y' div 400;
          yoe = y' - era * 400;
          doy = (153 * (if m > 2 then m - 3 else m + 9) + 2) div 5 + d - 1;
          doe = yoe * 365 + yoe div 4 - yoe div 100 + doy
      in era * 146097 + doe - 719468)"

definition dt_year :: "int \<Rightarrow> int" where
  "dt_year ns = fst (civil_from_days (dt_days ns))"

definition dt_month :: "int \<Rightarrow> int" where
  "dt_month ns = fst (snd (civil_from_days (dt_days ns)))"

definition dt_day :: "int \<Rightarrow> int" where
  "dt_day ns = snd (snd (civil_from_days (dt_days ns)))"

text \<open>Monday is 0; 1970-01-01 was a Thursday.\<close>

definition dt_weekday :: "int \<Rightarrow> int" where
  "dt_weekday ns = (dt_days ns + 3) mod 7"

definition dt_day_name :: "int \<Rightarrow> string" where
  "dt_day_name ns =
     [''Monday'', ''Tuesday'', ''Wednesday'', ''Thursday'', ''Friday'', ''Saturday'', ''Sunday'']
       ! nat (dt_weekday ns)"

text \<open>The ISO 8601 week number.\<close>

definition weeks_in_year :: "int \<Rightarrow> int" where
  "weeks_in_year y =
     (let p = (\<lambda>y. (y + y div 4 - y div 100 + y div 400) mod 7)
      in if p y = 4 \<or> p (y - 1) = 3 then 53 else 52)"

definition dt_week :: "int \<Rightarrow> int" where
  "dt_week ns =
     (let y = dt_year ns;
          doy = dt_days ns - days_from_civil y 1 1 + 1;
          w = (doy - (dt_weekday ns + 1) + 10) div 7
      in if w < 1 then weeks_in_year (y - 1)
         else if w > weeks_in_year y then 1
         else w)"

subsection \<open>The time frame\<close>

text \<open>
  \<open>series_list\<close>: the seven series read off the converted \<open>ts\<close> column, each turned
  into a list by the loop \<open>time_df[col] = [var for var in serie]\<close>.
\<close>

definition series_list :: "event list \<Rightarrow> pyval list list" where
  "series_list df =
     [map (\<lambda>e. dt_time (ts e)) df,
      map (\<lambda>e. PyInt (dt_hour (ts e))) df,
      map (\<lambda>e. PyInt (dt_day (ts e))) df,
      map (\<lambda>e. PyInt (dt_week (ts e))) df,
      map (\<lambda>e. PyInt (dt_month (ts e))) df,
      map (\<lambda>e. PyInt (dt_year (ts e))) df,
      map (\<lambda>e. PyStr (dt_day_name (ts e))) df]"

text \<open>
  \<open>time_df\<close> holds the seven lists as its columns \<open>start_time, hour, day, week, month,
  year, weekday\<close>; \<open>time_df.iterrows()\<close> reads it row by row.
\<close>

definition time_df :: "event list \<Rightarrow> pyval list list" where
  "time_df df = transpose (series_list df)"

subsection \<open>The user frame\<close>

text \<open>
  \<open>DataFrame.drop_duplicates()\<close>: a row is dropped when an equal row stands before it.
\<close>

fun drop_duplicates :: "'a list \<Rightarrow> 'a list" where
  "drop_duplicates [] = []"
| "drop_duplicates (r # rows) = r # drop_duplicates (filter (\<lambda>r'. r' \<noteq> r) rows)"

definition user_columns :: "event \<Rightarrow> pyval list" where
  "user_columns e = [userId e, firstName e, lastName e, gender e, level e]"

definition user_df :: "event list \<Rightarrow> pyval list list" where
  "user_df df = drop_duplicates (map user_columns df)"

subsection \<open>The songplay loop\<close>

text \<open>
  \<open>if results: songid, artistid = results else: songid, artistid = None, None\<close>.
  \<open>fetchone\<close> returns \<open>None\<close> or a tuple; an empty tuple is false as well, and a tuple
  that is not a pair cannot be unpacked into two names.
\<close>

fun unpack_results :: "pyval list option \<Rightarrow> error + pyval \<times> pyval" where
  "unpack_results None = Inr (PyNone, PyNone)"
| "unpack_results (Some []) = Inr (PyNone, PyNone)"
| "unpack_results (Some [songid, artistid]) = Inr (songid, artistid)"
| "unpack_results (Some _) = Inl ValueError"

definition songplay_data :: "event \<Rightarrow> pyval \<Rightarrow> pyval \<Rightarrow> pyval list" where
  "songplay_data row songid artistid =
     [Timestamp (ts row), userId row, level row, songid, artistid,
      sessionId row, location row, userAgent row]"

text \<open>The body of \<open>for index, row in df.iterrows()\<close>.\<close>

definition songplay_body :: "database \<Rightarrow> event \<Rightarrow> cursor \<Rightarrow> unit outcome \<times> cursor" where
  "songplay_body db row cur =
     (case execute db song_select [song row, artist row, length_f row] cur of
        (Raised e, cur1) \<Rightarrow> (Raised e, cur1)
      | (Returned u, cur1) \<Rightarrow>
          (case fetchone cur1 of
             (results, cur2) \<Rightarrow>
               (case unpack_results results of
                  Inl e \<Rightarrow> (Raised e, cur2)
                | Inr (songid, artistid) \<Rightarrow>
                    execute db songplay_table_insert (songplay_data row songid artistid) cur2)))"

fun songplay_loop :: "database \<Rightarrow> event list \<Rightarrow> cursor \<Rightarrow> unit outcome \<times> cursor" where
  "songplay_loop db [] cur = (Returned (), cur)"
| "songplay_loop db (row # rows) cur =
     (case songplay_body db row cur of
        (Raised e, cur') \<Rightarrow> (Raised e, cur')
      | (Returned u, cur') \<Rightarrow> songplay_loop db rows cur')"

subsection \<open>The whole function\<close>

definition process_log_file :: "database \<Rightarrow> event list \<Rightarrow> cursor \<Rightarrow> unit outcome \<times> cursor" where
  "process_log_file db df0 cur =
     (let df = convert_ts (filter_NextSong df0)
      in case execute_rows db time_table_insert (time_df df) cur of
           (Raised e, cur1) \<Rightarrow> (Raised e, cur1)
         | (Returned u, cur1) \<Rightarrow>
             (case execute_rows db user_table_insert (user_df df) cur1 of
                (Raised e, cur2) \<Rightarrow> (Raised e, cur2)
              | (Returned u, cur2) \<Rightarrow> songplay_loop db df cur2))"

text \<open>The parameters of every execution of one statement, in order.\<close>

definition emitted :: "statement \<Rightarrow> cursor \<Rightarrow> pyval list list" where
  "emitted stmt cur = map snd (filter (\<lambda>x. fst x = stmt) (executed cur))"

section \<open>Example data\<close>

text \<open>A cursor that has executed nothing yet.\<close>

definition fresh_cursor :: cursor where
  "fresh_cursor = \<lparr>executed = [], pending = []\<rparr>"

text \<open>A database that accepts every statement and finds no song.\<close>

definition db_no_match :: database where
  "db_no_match history stmt params = Inr []"

text \<open>A database that knows one song, the one of the specification's example.\<close>

definition db_one_match :: database where
  "db_one_match history stmt params =
     (if stmt = song_select \<and>
         params = [PyStr ''Setanta matins'', PyStr ''Elena'', PyFloat 26958 (- 2)]
      then Inr [[PyStr ''SOZCTXZ12AB0182364'', PyStr ''AR5KOSW1187FB35FF4'']]
      else Inr [])"

text \<open>A database in which two songs have that title, artist name and duration.\<close>

definition db_two_matches :: database where
  "db_two_matches history stmt params =
     (if stmt = song_select \<and>
         params = [PyStr ''Setanta matins'', PyStr ''Elena'', PyFloat 26958 (- 2)]
      then Inr [[PyStr ''SOZCTXZ12AB0182364'', PyStr ''AR5KOSW1187FB35FF4''],
                [PyStr ''SOZCTXZ12AB0182365'', PyStr ''AR5KOSW1187FB35FF5'']]
      else Inr [])"

text \<open>
  Three events of one user: a played song, the same event on the paid tier half a second
  later, and a visit of the home page.
\<close>

definition ev_free :: event where
  "ev_free =
     \<lparr>page = PyStr ''NextSong'', ts = 1541990258000, userId = PyInt 10,
      firstName = PyStr ''Sylvie'', lastName = PyStr ''Cruz'', gender = PyStr ''F'',
      level = PyStr ''free'', song = PyStr ''Setanta matins'', artist = PyStr ''Elena'',
      length_f = PyFloat 26958 (- 2), sessionId = PyInt 9,
      location = PyStr ''Washington'', userAgent = PyStr ''Mozilla''\<rparr>"

definition ev_paid :: event where
  "ev_paid = ev_free\<lparr>ts := 1541990258500, level := PyStr ''paid''\<rparr>"

definition ev_home :: event where
  "ev_home = ev_free\<lparr>page := PyStr ''Home'', song := PyNone, artist := PyNone, length_f := PyNone\<rparr>"

text \<open>
  Python's \<open>float\<close> on the strings of decimal digits; it rejects every other string
  here, as \<open>float\<close> rejects the other strings of the examples.
\<close>

definition float_of_digits :: "string \<Rightarrow> pyfloat option" where
  "float_of_digits s =
     (if s \<noteq> [] \<and> list_all (\<lambda>c. c \<in> set ''0123456789'') s
      then Some (Dec (foldl (\<lambda>n c. 10 * n + (of_char c - 48)) 0 s) 0)
      else None)"



text \<open>A database whose connection is lost after the first song lookup: the second raises.\<close>

definition db_second_lookup_raises :: database where
  "db_second_lookup_raises history stmt params =
     (if stmt = song_select \<and> filter (\<lambda>x. fst x = song_select) history \<noteq> []
      then Inl DatabaseError else Inr [])"

text \<open>The played song after the conversion of \<open>ts\<close>.\<close>

definition played :: event where
  "played = ev_free\<lparr>ts := 1541990258000000000\<rparr>"

text \<open>The cursor after a song file has been written through it.\<close>

definition after_song_file :: cursor where
  "after_song_file =
     \<lparr>executed =
        [(song_table_insert,
          [PyStr ''SOZCTXZ12AB0182364'', PyStr ''Setanta matins'', PyStr ''AR5KOSW1187FB35FF4'',
           PyInt 0, PyFloat 26958 (- 2)]),
         (artist_table_insert,
          [PyStr ''AR5KOSW1187FB35FF4'', PyStr ''Elena'', PyStr ''Dubai UAE'',
           PyFloat 4980975 (- 5), PyFloat 1547599 (- 5)])],
      pending = []\<rparr>"

section \<open>The cursor and the loops over it\<close>

lemma execute_accepted:
  "db (executed cur) stmt params = Inr rows \<Longrightarrow>
   execute db stmt params cur =
     (Returned (), \<lparr>executed = executed cur @ [(stmt, params)], pending = rows\<rparr>)"
  by (simp add: execute_def)

lemma execute_rejected:
  "db (executed cur) stmt params = Inl e \<Longrightarrow> execute db stmt params cur = (Raised e, cur)"
  by (simp add: execute_def)

lemma execute_Returned_executed:
  "execute db stmt params cur = (Returned u, cur') \<Longrightarrow>
   executed cur' = executed cur @ [(stmt, params)]"
  by (auto simp: execute_def split: sum.splits)

lemma execute_Raised_cursor:
  "execute db stmt params cur = (Raised e, cur') \<Longrightarrow> cur' = cur"
  by (auto simp: execute_def split: sum.splits)

lemma execute_Raised_db:
  "execute db stmt params cur = (Raised e, cur') \<Longrightarrow> db (executed cur) stmt params = Inl e"
  by (auto simp: execute_def split: sum.splits)

lemma fetchone_executed: "executed (snd (fetchone cur)) = executed cur"
  by (simp add: fetchone_def split: list.splits)

lemma emitted_append:
  "executed cur' = executed cur @ xs \<Longrightarrow>
   emitted stmt cur' = emitted stmt cur @ map snd (filter (\<lambda>x. fst x = stmt) xs)"
  by (simp add: emitted_def)

lemma execute_rows_Returned_executed:
  "execute_rows db stmt rows cur = (Returned u, cur') \<Longrightarrow>
   executed cur' = executed cur @ map (Pair stmt) rows"
proof (induction rows arbitrary: cur)
  case Nil
  then show ?case by simp
next
  case (Cons row rows)
  show ?case
  proof (cases "execute db stmt row cur")
    case (Pair out cur1)
    show ?thesis
    proof (cases out)
      case (Returned v)
      with Pair Cons.prems have "execute_rows db stmt rows cur1 = (Returned u, cur')"
        by simp
      then have "executed cur' = executed cur1 @ map (Pair stmt) rows"
        by (rule Cons.IH)
      moreover have "executed cur1 = executed cur @ [(stmt, row)]"
        using Pair Returned by (auto dest: execute_Returned_executed)
      ultimately show ?thesis by simp
    next
      case (Raised e)
      with Pair Cons.prems show ?thesis by simp
    qed
  qed
qed

lemma execute_rows_executed_prefix:
  "\<exists>n \<le> length rows. executed (snd (execute_rows db stmt rows cur)) = executed cur @ map (Pair stmt) (take n rows)"
proof (induction rows arbitrary: cur)
  case Nil
  then show ?case by simp
next
  case (Cons row rows)
  show ?case
  proof (cases "execute db stmt row cur")
    case (Pair out cur1)
    show ?thesis
    proof (cases out)
      case (Returned v)
      from Cons.IH [of cur1] obtain n where n: "n \<le> length rows"
        "executed (snd (execute_rows db stmt rows cur1)) = executed cur1 @ map (Pair stmt) (take n rows)"
        by blast
      have "executed cur1 = executed cur @ [(stmt, row)]"
        using Pair Returned by (auto dest: execute_Returned_executed)
      with n Pair Returned
      have "executed (snd (execute_rows db stmt (row # rows) cur)) =
              executed cur @ map (Pair stmt) (take (Suc n) (row # rows))"
        by simp
      with n(1) show ?thesis
        by (metis Suc_le_mono length_Cons)
    next
      case (Raised e)
      with Pair have "cur1 = cur" by (auto dest: execute_Raised_cursor)
      with Pair Raised
      have "executed (snd (execute_rows db stmt (row # rows) cur)) =
              executed cur @ map (Pair stmt) (take 0 (row # rows))"
        by simp
      then show ?thesis by blast
    qed
  qed
qed

lemma execute_rows_emitted_other:
  assumes "s \<noteq> stmt"
  shows "emitted s (snd (execute_rows db stmt rows cur)) = emitted s cur"
proof -
  obtain n where "executed (snd (execute_rows db stmt rows cur)) = executed cur @ map (Pair stmt) (take n rows)"
    using execute_rows_executed_prefix by blast
  then have "emitted s (snd (execute_rows db stmt rows cur)) =
      emitted s cur @ map snd (filter (\<lambda>x. fst x = s) (map (Pair stmt) (take n rows)))"
    by (rule emitted_append)
  moreover have "filter (\<lambda>x. fst x = s) (map (Pair stmt) (take n rows)) = []"
    using assms by (simp add: filter_empty_conv)
  ultimately show ?thesis by simp
qed

lemma execute_rows_emitted_same:
  assumes "execute_rows db stmt rows cur = (Returned u, cur')"
  shows "emitted stmt cur' = emitted stmt cur @ rows"
proof -
  have "executed cur' = executed cur @ map (Pair stmt) rows"
    using assms by (rule execute_rows_Returned_executed)
  then have "emitted stmt cur' = emitted stmt cur @ map snd (filter (\<lambda>x. fst x = stmt) (map (Pair stmt) rows))"
    by (rule emitted_append)
  moreover have "map snd (filter (\<lambda>x. fst x = stmt) (map (Pair stmt) rows)) = rows"
    by (induction rows) simp_all
  ultimately show ?thesis by simp
qed

lemma songplay_body_lookup_raises:
  assumes "db (executed cur) song_select [song row, artist row, length_f row] = Inl e"
  shows "songplay_body db row cur = (Raised e, cur)"
  using assms by (simp add: songplay_body_def execute_rejected)

lemma songplay_body_first_match:
  assumes "db (executed cur) song_select [song row, artist row, length_f row] =
             Inr ([songid, artistid] # others)"
  shows "songplay_body db row cur =
           execute db songplay_table_insert (songplay_data row songid artistid)
             \<lparr>executed = executed cur @ [(song_select, [song row, artist row, length_f row])],
              pending = others\<rparr>"
  using assms by (simp add: songplay_body_def execute_accepted fetchone_def)

lemma songplay_body_no_match:
  assumes "db (executed cur) song_select [song row, artist row, length_f row] = Inr []"
  shows "songplay_body db row cur =
           execute db songplay_table_insert (songplay_data row PyNone PyNone)
             \<lparr>executed = executed cur @ [(song_select, [song row, artist row, length_f row])],
              pending = []\<rparr>"
  using assms by (simp add: songplay_body_def execute_accepted fetchone_def)

lemma songplay_body_Returned:
  assumes "songplay_body db row cur = (Returned u, cur')"
  shows "\<exists>songid artistid. executed cur' =
           executed cur @ [(song_select, [song row, artist row, length_f row]),
                           (songplay_table_insert, songplay_data row songid artistid)]"
proof (cases "execute db song_select [song row, artist row, length_f row] cur")
  case (Pair out cur1)
  show ?thesis
  proof (cases out)
    case (Raised e)
    with Pair assms show ?thesis by (simp add: songplay_body_def)
  next
    case (Returned v)
    with Pair have cur1: "executed cur1 = executed cur @ [(song_select, [song row, artist row, length_f row])]"
      by (auto dest: execute_Returned_executed)
    obtain results cur2 where f: "fetchone cur1 = (results, cur2)"
      by (cases "fetchone cur1")
    then have cur2: "executed cur2 = executed cur1"
      using fetchone_executed [of cur1] by simp
    show ?thesis
    proof (cases "unpack_results results")
      case (Inl e)
      with Pair Returned f assms show ?thesis by (simp add: songplay_body_def)
    next
      case (Inr ids)
      obtain songid artistid where ids: "ids = (songid, artistid)"
        by (cases ids)
      with Pair Returned f Inr assms
      have "execute db songplay_table_insert (songplay_data row songid artistid) cur2 = (Returned u, cur')"
        by (simp add: songplay_body_def)
      then have "executed cur' = executed cur2 @ [(songplay_table_insert, songplay_data row songid artistid)]"
        by (rule execute_Returned_executed)
      with cur1 cur2 have "executed cur' =
           executed cur @ [(song_select, [song row, artist row, length_f row]),
                           (songplay_table_insert, songplay_data row songid artistid)]"
        by simp
      then show ?thesis by blast
    qed
  qed
qed

lemma execute_emitted_other:
  assumes "s \<noteq> stmt"
  shows "emitted s (snd (execute db stmt params cur)) = emitted s cur"
  using assms by (simp add: execute_def emitted_def split: sum.splits)

lemma fetchone_emitted: "emitted s (snd (fetchone cur)) = emitted s cur"
  by (simp add: emitted_def fetchone_executed)

lemma songplay_body_emitted_other:
  assumes "s \<noteq> song_select" and "s \<noteq> songplay_table_insert"
  shows "emitted s (snd (songplay_body db row cur)) = emitted s cur"
proof (cases "execute db song_select [song row, artist row, length_f row] cur")
  case (Pair out cur1)
  have cur1: "emitted s cur1 = emitted s cur"
    using execute_emitted_other [OF assms(1), of db "[song row, artist row, length_f row]" cur] Pair
    by simp
  show ?thesis
  proof (cases out)
    case (Raised e)
    with Pair cur1 show ?thesis by (simp add: songplay_body_def)
  next
    case (Returned v)
    obtain results cur2 where f: "fetchone cur1 = (results, cur2)"
      by (cases "fetchone cur1")
    then have cur2: "emitted s cur2 = emitted s cur1"
      using fetchone_emitted [of s cur1] by simp
    show ?thesis
    proof (cases "unpack_results results")
      case (Inl e)
      with Pair Returned f cur1 cur2 show ?thesis by (simp add: songplay_body_def)
    next
      case (Inr ids)
      obtain songid artistid where ids: "ids = (songid, artistid)"
        by (cases ids)
      have "emitted s (snd (execute db songplay_table_insert (songplay_data row songid artistid) cur2)) =
            emitted s cur2"
        using assms(2) by (rule execute_emitted_other)
      with Pair Returned f Inr ids cur1 cur2 show ?thesis by (simp add: songplay_body_def)
    qed
  qed
qed

lemma songplay_loop_emitted_other:
  assumes "s \<noteq> song_select" and "s \<noteq> songplay_table_insert"
  shows "emitted s (snd (songplay_loop db rows cur)) = emitted s cur"
proof (induction rows arbitrary: cur)
  case Nil
  then show ?case by simp
next
  case (Cons row rows)
  show ?case
  proof (cases "songplay_body db row cur")
    case (Pair out cur1)
    have cur1: "emitted s cur1 = emitted s cur"
      using songplay_body_emitted_other [OF assms, of db row cur] Pair by simp
    show ?thesis
    proof (cases out)
      case (Raised e)
      with Pair cur1 show ?thesis by simp
    next
      case (Returned v)
      with Pair cur1 Cons.IH [of cur1] show ?thesis by simp
    qed
  qed
qed

lemma songplay_loop_Returned:
  assumes "songplay_loop db rows cur = (Returned u, cur')"
  shows "\<exists>ids. length ids = length rows \<and>
           emitted songplay_table_insert cur' =
             emitted songplay_table_insert cur @
             map (\<lambda>(row, songid, artistid). songplay_data row songid artistid) (zip rows ids)"
  using assms
proof (induction rows arbitrary: cur)
  case Nil
  then show ?case by simp
next
  case (Cons row rows)
  show ?case
  proof (cases "songplay_body db row cur")
    case (Pair out cur1)
    show ?thesis
    proof (cases out)
      case (Raised e)
      with Pair Cons.prems show ?thesis by simp
    next
      case (Returned v)
      with Pair obtain songid artistid where "executed cur1 =
           executed cur @ [(song_select, [song row, artist row, length_f row]),
                           (songplay_table_insert, songplay_data row songid artistid)]"
        using songplay_body_Returned by blast
      then have cur1: "emitted songplay_table_insert cur1 =
          emitted songplay_table_insert cur @ [songplay_data row songid artistid]"
        by (simp add: emitted_def)
      from Pair Returned Cons.prems have "songplay_loop db rows cur1 = (Returned u, cur')"
        by simp
      from Cons.IH [OF this] obtain ids where ids: "length ids = length rows"
        "emitted songplay_table_insert cur' =
             emitted songplay_table_insert cur1 @
             map (\<lambda>(row, songid, artistid). songplay_data row songid artistid) (zip rows ids)"
        by blast
      let ?ids = "(songid, artistid) # ids"
      have "length ?ids = length (row # rows)"
        using ids(1) by simp
      moreover have "emitted songplay_table_insert cur' =
             emitted songplay_table_insert cur @
             map (\<lambda>(row, songid, artistid). songplay_data row songid artistid) (zip (row # rows) ?ids)"
        using ids(2) cur1 by simp
      ultimately show ?thesis by blast
    qed
  qed
qed

lemma songplay_loop_append:
  "songplay_loop db (pre @ post) cur =
     (case songplay_loop db pre cur of
        (Raised e, cur') \<Rightarrow> (Raised e, cur')
      | (Returned u, cur') \<Rightarrow> songplay_loop db post cur')"
  by (induction pre arbitrary: cur) (auto split: prod.splits outcome.splits)

lemma songplay_loop_lookup_raises:
  assumes "songplay_loop db pre cur = (Returned u, cur')"
    and "db (executed cur') song_select [song row, artist row, length_f row] = Inl e"
  shows "songplay_loop db (pre @ row # post) cur = (Raised e, cur')"
  using assms by (simp add: songplay_loop_append songplay_body_lookup_raises)

section \<open>The frames\<close>

lemma transpose_columns:
  "transpose [map f1 xs, map f2 xs, map f3 xs, map f4 xs, map f5 xs, map f6 xs, map f7 xs] =
     map (\<lambda>x. [f1 x, f2 x, f3 x, f4 x, f5 x, f6 x, f7 x]) xs"
  by (induction xs) simp_all

lemma time_df_rows:
  "time_df df =
     map (\<lambda>e. [dt_time (ts e), PyInt (dt_hour (ts e)), PyInt (dt_day (ts e)),
               PyInt (dt_week (ts e)), PyInt (dt_month (ts e)), PyInt (dt_year (ts e)),
               PyStr (dt_day_name (ts e))]) df"
  unfolding time_df_def series_list_def by (rule transpose_columns)


lemma drop_duplicates_filter:
  "drop_duplicates (filter P rows) = filter P (drop_duplicates rows)"
proof (induction rows arbitrary: P rule: drop_duplicates.induct)
  case 1
  then show ?case by simp
next
  case (2 r rows)
  show ?case
  proof (cases "P r")
    case True
    with "2.IH" [of P] show ?thesis
      by (simp add: conj_commute)
  next
    case False
    have "filter P (filter (\<lambda>r'. r' \<noteq> r) rows) = filter P rows"
      using False by (auto intro: filter_cong)
    with False show ?thesis
      using "2.IH" [of P] by simp
  qed
qed

lemma drop_duplicates_Cons:
  "drop_duplicates (r # rows) = r # filter (\<lambda>r'. r' \<noteq> r) (drop_duplicates rows)"
  by (simp add: drop_duplicates_filter)

lemma set_drop_duplicates: "set (drop_duplicates rows) = set rows"
  by (induction rows) (auto simp: drop_duplicates_Cons simp del: drop_duplicates.simps(2))

lemma distinct_drop_duplicates: "distinct (drop_duplicates rows)"
  by (induction rows) (auto simp: drop_duplicates_Cons simp del: drop_duplicates.simps(2))

lemma subseq_drop_duplicates: "subseq (drop_duplicates rows) rows"
proof (induction rows)
  case Nil
  then show ?case by simp
next
  case (Cons r rows)
  have "subseq (filter (\<lambda>r'. r' \<noteq> r) (drop_duplicates rows)) (drop_duplicates rows)"
    by simp
  with Cons have "subseq (filter (\<lambda>r'. r' \<noteq> r) (drop_duplicates rows)) rows"
    by (meson subseq_order.trans)
  then show ?case
    by (simp add: drop_duplicates_Cons del: drop_duplicates.simps(2))
qed

lemma drop_duplicates_snoc:
  "drop_duplicates (rows @ [r]) = drop_duplicates rows @ (if r \<in> set rows then [] else [r])"
  by (induction rows) (auto simp: drop_duplicates_Cons simp del: drop_duplicates.simps(2))

lemma drop_duplicates_first_occurrences:
  "drop_duplicates rows =
     map (\<lambda>i. rows ! i) (filter (\<lambda>i. rows ! i \<notin> set (take i rows)) [0..<length rows])"
proof (induction rows rule: rev_induct)
  case Nil
  then show ?case by simp
next
  case (snoc r rows)
  have "filter (\<lambda>i. (rows @ [r]) ! i \<notin> set (take i (rows @ [r]))) [0..<length rows] =
        filter (\<lambda>i. rows ! i \<notin> set (take i rows)) [0..<length rows]"
    by (rule filter_cong) (auto simp: nth_append)
  moreover have "map (\<lambda>i. (rows @ [r]) ! i) (filter (\<lambda>i. rows ! i \<notin> set (take i rows)) [0..<length rows]) =
     map (\<lambda>i. rows ! i) (filter (\<lambda>i. rows ! i \<notin> set (take i rows)) [0..<length rows])"
    by (rule map_cong) (auto simp: nth_append)
  ultimately show ?case
    using snoc.IH by (simp add: drop_duplicates_snoc)
qed

lemma to_datetime_ms_mod: "to_datetime_ms ms mod 1000000000 = (ms mod 1000) * 1000000"
proof -
  have "(ms * 1000000) mod (1000 * 1000000) = (ms mod 1000) * 1000000"
    by (simp only: mult_mod_left)
  then show ?thesis by (simp add: to_datetime_ms_def)
qed

lemma ceil_s_to_datetime_ms:
  "ceil_s (to_datetime_ms ms) = - ((- ms) div 1000) * 1000000000"
proof -
  have split: "ms = 1000 * (ms div 1000) + ms mod 1000"
    by simp
  have neg: "(- ms) div 1000 = (if ms mod 1000 = 0 then - (ms div 1000) else - (ms div 1000) - 1)"
    by (simp add: zdiv_zminus1_eq_if)
  show ?thesis
  proof (cases "ms mod 1000 = 0")
    case True
    with split have "ms = 1000 * (ms div 1000)" by simp
    then have "to_datetime_ms ms = (ms div 1000) * 1000000000"
      by (simp add: to_datetime_ms_def)
    with True neg show ?thesis
      by (simp add: ceil_s_def Let_def to_datetime_ms_mod)
  next
    case False
    have "(1000 * q + r) * 1000000 + (1000000000 - r * 1000000) = (q + 1) * 1000000000"
      for q r :: int
      by (simp add: algebra_simps)
    from this [of "ms div 1000" "ms mod 1000"]
    have "to_datetime_ms ms + (1000000000 - (ms mod 1000) * 1000000) =
          (ms div 1000 + 1) * 1000000000"
      by (simp add: to_datetime_ms_def)
    with False neg show ?thesis
      by (simp add: ceil_s_def Let_def to_datetime_ms_mod)
  qed
qed

lemma ceil_s_ceiling:
  "ceil_s (to_datetime_ms ms) = \<lceil>real_of_int ms / 1000\<rceil> * 1000000000"
proof -
  have "\<lceil>real_of_int ms / real_of_int 1000\<rceil> = - ((- ms) div 1000)"
    by (rule ceiling_divide_eq_div)
  then show ?thesis
    by (simp add: ceil_s_to_datetime_ms)
qed

lemma count_list_filter:
  "count_list (filter P xs) x = (if P x then count_list xs x else 0)"
  by (induction xs) auto

lemma filter_NextSong_idem: "filter_NextSong (filter_NextSong df) = filter_NextSong df"
  by (simp add: filter_NextSong_def)

section \<open>The whole of process_log_file\<close>

lemma process_log_file_emitted_time:
  "emitted time_table_insert (snd (process_log_file db df cur)) =
   emitted time_table_insert
     (snd (execute_rows db time_table_insert (time_df (convert_ts (filter_NextSong df))) cur))"
proof -
  let ?df = "convert_ts (filter_NextSong df)"
  obtain out1 cur1 where r1: "execute_rows db time_table_insert (time_df ?df) cur = (out1, cur1)"
    by (cases "execute_rows db time_table_insert (time_df ?df) cur")
  obtain out2 cur2 where r2: "execute_rows db user_table_insert (user_df ?df) cur1 = (out2, cur2)"
    by (cases "execute_rows db user_table_insert (user_df ?df) cur1")
  have c2: "emitted time_table_insert cur2 = emitted time_table_insert cur1"
    using execute_rows_emitted_other [of time_table_insert user_table_insert db "user_df ?df" cur1] r2
    by simp
  have c3: "emitted time_table_insert (snd (songplay_loop db ?df cur2)) = emitted time_table_insert cur2"
    by (rule songplay_loop_emitted_other) simp_all
  show ?thesis
    using r1 r2 c2 c3
    by (cases out1; cases out2) (simp_all add: process_log_file_def)
qed

lemma process_log_file_Returned:
  assumes "process_log_file db df cur = (Returned u, cur')"
  shows "\<exists>ids. length ids = length (convert_ts (filter_NextSong df)) \<and>
           emitted time_table_insert cur' =
             emitted time_table_insert cur @ time_df (convert_ts (filter_NextSong df)) \<and>
           emitted songplay_table_insert cur' =
             emitted songplay_table_insert cur @
             map (\<lambda>(row, songid, artistid). songplay_data row songid artistid)
               (zip (convert_ts (filter_NextSong df)) ids)"
proof -
  let ?df = "convert_ts (filter_NextSong df)"
  obtain out1 cur1 where r1: "execute_rows db time_table_insert (time_df ?df) cur = (out1, cur1)"
    by (cases "execute_rows db time_table_insert (time_df ?df) cur")
  obtain out2 cur2 where r2: "execute_rows db user_table_insert (user_df ?df) cur1 = (out2, cur2)"
    by (cases "execute_rows db user_table_insert (user_df ?df) cur1")
  from assms r1 obtain u1 where o1: "out1 = Returned u1"
    by (cases out1) (simp_all add: process_log_file_def)
  from assms r1 r2 o1 obtain u2 where o2: "out2 = Returned u2"
    by (cases out2) (simp_all add: process_log_file_def)
  from assms r1 r2 o1 o2 have r3: "songplay_loop db ?df cur2 = (Returned u, cur')"
    by (simp add: process_log_file_def)
  have t1: "emitted time_table_insert cur1 = emitted time_table_insert cur @ time_df ?df"
    using r1 o1 by (auto intro: execute_rows_emitted_same)
  have t2: "emitted time_table_insert cur2 = emitted time_table_insert cur1"
    using execute_rows_emitted_other [of time_table_insert user_table_insert db "user_df ?df" cur1] r2
    by simp
  have t3: "emitted time_table_insert cur' = emitted time_table_insert cur2"
    using songplay_loop_emitted_other [of time_table_insert db ?df cur2] r3 by simp
  have s1: "emitted songplay_table_insert cur1 = emitted songplay_table_insert cur"
    using execute_rows_emitted_other [of songplay_table_insert time_table_insert db "time_df ?df" cur] r1
    by simp
  have s2: "emitted songplay_table_insert cur2 = emitted songplay_table_insert cur1"
    using execute_rows_emitted_other [of songplay_table_insert user_table_insert db "user_df ?df" cur1] r2
    by simp
  from songplay_loop_Returned [OF r3] obtain ids where
    ids: "length ids = length ?df"
      "emitted songplay_table_insert cur' =
         emitted songplay_table_insert cur2 @
         map (\<lambda>(row, songid, artistid). songplay_data row songid artistid) (zip ?df ids)"
    by blast
  have "emitted time_table_insert cur' = emitted time_table_insert cur @ time_df ?df"
    using t1 t2 t3 by simp
  moreover have "emitted songplay_table_insert cur' =
         emitted songplay_table_insert cur @
         map (\<lambda>(row, songid, artistid). songplay_data row songid artistid) (zip ?df ids)"
    using ids(2) s1 s2 by simp
  ultimately show ?thesis using ids(1) by blast
qed

lemma emitted_fresh: "executed cur = [] \<Longrightarrow> emitted stmt cur = []"
  by (simp add: emitted_def)

lemma length_convert_ts: "length (convert_ts df) = length df"
  by (simp add: convert_ts_def)

section \<open>The examples evaluated\<close>

lemma ceil_s_examples:
  "ceil_s (to_datetime_ms 1541990258000) = 1541990258000000000"
  "ceil_s (to_datetime_ms 1541990258500) = 1541990259000000000"
  unfolding ceil_s_def to_datetime_ms_def Let_def by simp_all

lemma dt_seconds_example: "dt_seconds 1541990258000000000 = 1541990258"
  unfolding dt_seconds_def by simp

lemma dt_days_example: "dt_days 1541990258000000000 = 17847"
  unfolding dt_days_def dt_seconds_example by simp

lemma dt_time_example: "dt_time 1541990258000000000 = Time 2 37 38 0"
  unfolding dt_time_def dt_hour_def dt_minute_def dt_second_def dt_microsecond_def
    dt_seconds_example
  by simp

lemma dt_hour_example: "dt_hour 1541990258000000000 = 2"
  unfolding dt_hour_def dt_seconds_example by simp

lemma civil_from_days_example: "civil_from_days 17847 = (2018, 11, 12)"
  unfolding civil_from_days_def Let_def by simp

lemma dt_date_example:
  "dt_year 1541990258000000000 = 2018"
  "dt_month 1541990258000000000 = 11"
  "dt_day 1541990258000000000 = 12"
  unfolding dt_year_def dt_month_def dt_day_def dt_days_example civil_from_days_example
  by simp_all

lemma dt_weekday_example: "dt_weekday 1541990258000000000 = 0"
  unfolding dt_weekday_def dt_days_example by simp

lemma dt_day_name_example: "dt_day_name 1541990258000000000 = ''Monday''"
  unfolding dt_day_name_def dt_weekday_example by simp

lemma days_from_civil_example: "days_from_civil 2018 1 1 = 17532"
  unfolding days_from_civil_def Let_def by simp

lemma weeks_in_year_example: "weeks_in_year 2018 = 52"
  unfolding weeks_in_year_def Let_def by simp

lemma dt_week_example: "dt_week 1541990258000000000 = 46"
  unfolding dt_week_def Let_def dt_date_example dt_days_example dt_weekday_example
    days_from_civil_example weeks_in_year_example
  by simp

lemmas dt_examples =
  dt_time_example dt_hour_example dt_date_example dt_week_example dt_day_name_example

lemma convert_ts_example:
  "convert_ts (filter_NextSong [ev_free, ev_home, ev_free]) = [played, played]"
  by (simp add: convert_ts_def filter_NextSong_def ev_free_def ev_home_def played_def
      ceil_s_examples)

lemma time_df_example:
  "time_df [played, played] =
     [[Time 2 37 38 0, PyInt 2, PyInt 12, PyInt 46, PyInt 11, PyInt 2018, PyStr ''Monday''],
      [Time 2 37 38 0, PyInt 2, PyInt 12, PyInt 46, PyInt 11, PyInt 2018, PyStr ''Monday'']]"
  by (simp add: time_df_rows played_def dt_examples)

lemma user_df_example:
  "user_df [played, played] =
     [[PyInt 10, PyStr ''Sylvie'', PyStr ''Cruz'', PyStr ''F'', PyStr ''free'']]"
  by (simp add: user_df_def user_columns_def played_def ev_free_def)

lemma execute_rows_time_example:
  "execute_rows db_no_match time_table_insert (time_df [played, played]) fresh_cursor =
     (Returned (),
      \<lparr>executed =
         [(time_table_insert,
           [Time 2 37 38 0, PyInt 2, PyInt 12, PyInt 46, PyInt 11, PyInt 2018, PyStr ''Monday'']),
          (time_table_insert,
           [Time 2 37 38 0, PyInt 2, PyInt 12, PyInt 46, PyInt 11, PyInt 2018, PyStr ''Monday''])],
       pending = []\<rparr>)"
  by (simp add: time_df_example execute_def db_no_match_def fresh_cursor_def)

lemma process_log_file_no_match_example:
  "process_log_file db_no_match [ev_free, ev_home, ev_free] fresh_cursor =
     (Returned (),
      \<lparr>executed =
         [(time_table_insert,
           [Time 2 37 38 0, PyInt 2, PyInt 12, PyInt 46, PyInt 11, PyInt 2018, PyStr ''Monday'']),
          (time_table_insert,
           [Time 2 37 38 0, PyInt 2, PyInt 12, PyInt 46, PyInt 11, PyInt 2018, PyStr ''Monday'']),
          (user_table_insert,
           [PyInt 10, PyStr ''Sylvie'', PyStr ''Cruz'', PyStr ''F'', PyStr ''free'']),
          (song_select, [PyStr ''Setanta matins'', PyStr ''Elena'', PyFloat 26958 (- 2)]),
          (songplay_table_insert,
           [Timestamp 1541990258000000000, PyInt 10, PyStr ''free'', PyNone, PyNone, PyInt 9,
            PyStr ''Washington'', PyStr ''Mozilla'']),
          (song_select, [PyStr ''Setanta matins'', PyStr ''Elena'', PyFloat 26958 (- 2)]),
          (songplay_table_insert,
           [Timestamp 1541990258000000000, PyInt 10, PyStr ''free'', PyNone, PyNone, PyInt 9,
            PyStr ''Washington'', PyStr ''Mozilla''])],
       pending = []\<rparr>)"
  unfolding process_log_file_def convert_ts_example Let_def execute_rows_time_example
    user_df_example
  by (simp add: songplay_body_def songplay_data_def execute_def fetchone_def
      db_no_match_def played_def ev_free_def)

lemma process_log_file_two_matches_example:
  "process_log_file db_two_matches [ev_free, ev_home, ev_free] fresh_cursor =
     (Returned (),
      \<lparr>executed =
         [(time_table_insert,
           [Time 2 37 38 0, PyInt 2, PyInt 12, PyInt 46, PyInt 11, PyInt 2018, PyStr ''Monday'']),
          (time_table_insert,
           [Time 2 37 38 0, PyInt 2, PyInt 12, PyInt 46, PyInt 11, PyInt 2018, PyStr ''Monday'']),
          (user_table_insert,
           [PyInt 10, PyStr ''Sylvie'', PyStr ''Cruz'', PyStr ''F'', PyStr ''free'']),
          (song_select, [PyStr ''Setanta matins'', PyStr ''Elena'', PyFloat 26958 (- 2)]),
          (songplay_table_insert,
           [Timestamp 1541990258000000000, PyInt 10, PyStr ''free'',
            PyStr ''SOZCTXZ12AB0182364'', PyStr ''AR5KOSW1187FB35FF4'', PyInt 9,
            PyStr ''Washington'', PyStr ''Mozilla'']),
          (song_select, [PyStr ''Setanta matins'', PyStr ''Elena'', PyFloat 26958 (- 2)]),
          (songplay_table_insert,
           [Timestamp 1541990258000000000, PyInt 10, PyStr ''free'',
            PyStr ''SOZCTXZ12AB0182364'', PyStr ''AR5KOSW1187FB35FF4'', PyInt 9,
            PyStr ''Washington'', PyStr ''Mozilla''])],
       pending = []\<rparr>)"
  unfolding process_log_file_def convert_ts_example Let_def time_df_example user_df_example
  by (simp add: songplay_body_def songplay_data_def execute_def fetchone_def
      db_two_matches_def played_def ev_free_def fresh_cursor_def)

lemma execute_rows_Returned_emitted:
  assumes "execute_rows db stmt rows cur = (Returned u, cur')"
  shows "emitted s cur' = emitted s cur @ (if s = stmt then rows else [])"
proof (cases "s = stmt")
  case True
  with assms show ?thesis by (simp add: execute_rows_emitted_same)
next
  case False
  with execute_rows_emitted_other [of s stmt db rows cur] assms show ?thesis by simp
qed

lemma songplay_body_Raised_emitted:
  assumes "songplay_body db row cur = (Raised e, cur')"
  shows "emitted songplay_table_insert cur' = emitted songplay_table_insert cur"
proof (cases "execute db song_select [song row, artist row, length_f row] cur")
  case (Pair out cur1)
  have cur1: "emitted songplay_table_insert cur1 = emitted songplay_table_insert cur"
    using execute_emitted_other
      [of songplay_table_insert song_select db "[song row, artist row, length_f row]" cur] Pair
    by simp
  show ?thesis
  proof (cases out)
    case (Raised e1)
    with Pair assms cur1 show ?thesis by (simp add: songplay_body_def)
  next
    case (Returned v)
    obtain results cur2 where f: "fetchone cur1 = (results, cur2)"
      by (cases "fetchone cur1")
    then have cur2: "emitted songplay_table_insert cur2 = emitted songplay_table_insert cur1"
      using fetchone_emitted [of songplay_table_insert cur1] by simp
    show ?thesis
    proof (cases "unpack_results results")
      case (Inl e2)
      with Pair Returned f assms cur1 cur2 show ?thesis by (simp add: songplay_body_def)
    next
      case (Inr ids)
      obtain songid artistid where ids: "ids = (songid, artistid)"
        by (cases ids)
      with Pair Returned f Inr assms
      have "execute db songplay_table_insert (songplay_data row songid artistid) cur2 = (Raised e, cur')"
        by (simp add: songplay_body_def)
      then have "cur' = cur2"
        by (rule execute_Raised_cursor)
      with cur1 cur2 show ?thesis by simp
    qed
  qed
qed

lemma songplay_loop_emitted:
  "\<exists>ids. length ids \<le> length rows \<and>
     emitted songplay_table_insert (snd (songplay_loop db rows cur)) =
       emitted songplay_table_insert cur @
       map (\<lambda>(row, songid, artistid). songplay_data row songid artistid) (zip rows ids)"
proof (induction rows arbitrary: cur)
  case Nil
  then show ?case by simp
next
  case (Cons row rows)
  show ?case
  proof (cases "songplay_body db row cur")
    case (Pair out cur1)
    show ?thesis
    proof (cases out)
      case (Raised e)
      with Pair have "emitted songplay_table_insert cur1 = emitted songplay_table_insert cur"
        by (auto dest: songplay_body_Raised_emitted)
      with Pair Raised
      have "length ([] :: (pyval \<times> pyval) list) \<le> length (row # rows) \<and>
        emitted songplay_table_insert (snd (songplay_loop db (row # rows) cur)) =
          emitted songplay_table_insert cur @
          map (\<lambda>(row, songid, artistid). songplay_data row songid artistid) (zip (row # rows) [])"
        by simp
      then show ?thesis by blast
    next
      case (Returned v)
      with Pair obtain songid artistid where "executed cur1 =
           executed cur @ [(song_select, [song row, artist row, length_f row]),
                           (songplay_table_insert, songplay_data row songid artistid)]"
        using songplay_body_Returned by blast
      then have cur1: "emitted songplay_table_insert cur1 =
          emitted songplay_table_insert cur @ [songplay_data row songid artistid]"
        by (simp add: emitted_def)
      from Cons.IH [of cur1] obtain ids where ids: "length ids \<le> length rows"
        "emitted songplay_table_insert (snd (songplay_loop db rows cur1)) =
           emitted songplay_table_insert cur1 @
           map (\<lambda>(row, songid, artistid). songplay_data row songid artistid) (zip rows ids)"
        by blast
      let ?ids = "(songid, artistid) # ids"
      have "length ?ids \<le> length (row # rows)"
        using ids(1) by simp
      moreover have "emitted songplay_table_insert (snd (songplay_loop db (row # rows) cur)) =
             emitted songplay_table_insert cur @
             map (\<lambda>(row, songid, artistid). songplay_data row songid artistid) (zip (row # rows) ?ids)"
        using ids(2) cur1 Pair Returned by simp
      ultimately show ?thesis by blast
    qed
  qed
qed

lemma execute_rows_emitted_prefix:
  "\<exists>n \<le> length rows.
     emitted stmt (snd (execute_rows db stmt rows cur)) = emitted stmt cur @ take n rows"
proof -
  obtain n where n: "n \<le> length rows"
    "executed (snd (execute_rows db stmt rows cur)) = executed cur @ map (Pair stmt) (take n rows)"
    using execute_rows_executed_prefix by blast
  from n(2) have "emitted stmt (snd (execute_rows db stmt rows cur)) =
      emitted stmt cur @ map snd (filter (\<lambda>x. fst x = stmt) (map (Pair stmt) (take n rows)))"
    by (rule emitted_append)
  moreover have "map snd (filter (\<lambda>x. fst x = stmt) (map (Pair stmt) xs)) = xs" for xs :: "pyval list list"
    by (induction xs) simp_all
  ultimately show ?thesis using n(1) by auto
qed

lemma process_log_file_emitted:
  "\<exists>n ids. n \<le> length (convert_ts (filter_NextSong df)) \<and> length ids \<le> n \<and>
     emitted time_table_insert (snd (process_log_file db df cur)) =
       emitted time_table_insert cur @ take n (time_df (convert_ts (filter_NextSong df))) \<and>
     emitted songplay_table_insert (snd (process_log_file db df cur)) =
       emitted songplay_table_insert cur @
       map (\<lambda>(row, songid, artistid). songplay_data row songid artistid)
         (zip (convert_ts (filter_NextSong df)) ids)"
proof -
  let ?df = "convert_ts (filter_NextSong df)"
  let ?fact = "\<lambda>(row, songid, artistid). songplay_data row songid artistid"
  let ?P = "\<lambda>n ids. n \<le> length ?df \<and> length ids \<le> n \<and>
     emitted time_table_insert (snd (process_log_file db df cur)) =
       emitted time_table_insert cur @ take n (time_df ?df) \<and>
     emitted songplay_table_insert (snd (process_log_file db df cur)) =
       emitted songplay_table_insert cur @ map ?fact (zip ?df ids)"
  have len: "length (time_df ?df) = length ?df"
    by (simp add: time_df_rows)
  obtain out1 cur1 where r1: "execute_rows db time_table_insert (time_df ?df) cur = (out1, cur1)"
    by (cases "execute_rows db time_table_insert (time_df ?df) cur")
  have s1: "emitted songplay_table_insert cur1 = emitted songplay_table_insert cur"
    using execute_rows_emitted_other [of songplay_table_insert time_table_insert db "time_df ?df" cur] r1
    by simp
  show ?thesis
  proof (cases out1)
    case (Raised e)
    from execute_rows_emitted_prefix [of "time_df ?df" time_table_insert db cur] r1 len
    obtain n where "n \<le> length ?df"
      "emitted time_table_insert cur1 = emitted time_table_insert cur @ take n (time_df ?df)"
      by auto
    with r1 Raised s1 have "?P n []"
      by (simp add: process_log_file_def)
    then show ?thesis by blast
  next
    case (Returned u1)
    with r1 have t1: "emitted time_table_insert cur1 = emitted time_table_insert cur @ time_df ?df"
      by (auto intro: execute_rows_emitted_same)
    obtain out2 cur2 where r2: "execute_rows db user_table_insert (user_df ?df) cur1 = (out2, cur2)"
      by (cases "execute_rows db user_table_insert (user_df ?df) cur1")
    have t2: "emitted time_table_insert cur2 = emitted time_table_insert cur1"
      using execute_rows_emitted_other [of time_table_insert user_table_insert db "user_df ?df" cur1] r2
      by simp
    have s2: "emitted songplay_table_insert cur2 = emitted songplay_table_insert cur1"
      using execute_rows_emitted_other [of songplay_table_insert user_table_insert db "user_df ?df" cur1] r2
      by simp
    show ?thesis
    proof (cases out2)
      case (Raised e)
      with r1 r2 Returned t1 t2 s1 s2 len have "?P (length ?df) []"
        by (simp add: process_log_file_def)
      then show ?thesis by blast
    next
      case r: (Returned u2)
      have t3: "emitted time_table_insert (snd (songplay_loop db ?df cur2)) =
                  emitted time_table_insert cur2"
        by (rule songplay_loop_emitted_other) simp_all
      from songplay_loop_emitted [of ?df db cur2] obtain ids where
        ids: "length ids \<le> length ?df"
          "emitted songplay_table_insert (snd (songplay_loop db ?df cur2)) =
             emitted songplay_table_insert cur2 @ map ?fact (zip ?df ids)"
        by blast
      from r1 r2 Returned r t1 t2 t3 s1 s2 ids len have "?P (length ?df) ids"
        by (simp add: process_log_file_def)
      then show ?thesis by blast
    qed
  qed
qed

lemma process_log_file_Returned_user:
  assumes "process_log_file db df cur = (Returned u, cur')"
  shows "emitted user_table_insert cur' =
           emitted user_table_insert cur @ user_df (convert_ts (filter_NextSong df))"
proof -
  let ?df = "convert_ts (filter_NextSong df)"
  obtain out1 cur1 where r1: "execute_rows db time_table_insert (time_df ?df) cur = (out1, cur1)"
    by (cases "execute_rows db time_table_insert (time_df ?df) cur")
  obtain out2 cur2 where r2: "execute_rows db user_table_insert (user_df ?df) cur1 = (out2, cur2)"
    by (cases "execute_rows db user_table_insert (user_df ?df) cur1")
  from assms r1 obtain u1 where o1: "out1 = Returned u1"
    by (cases out1) (simp_all add: process_log_file_def)
  from assms r1 r2 o1 obtain u2 where o2: "out2 = Returned u2"
    by (cases out2) (simp_all add: process_log_file_def)
  from assms r1 r2 o1 o2 have r3: "songplay_loop db ?df cur2 = (Returned u, cur')"
    by (simp add: process_log_file_def)
  have "emitted user_table_insert cur1 = emitted user_table_insert cur"
    using execute_rows_emitted_other [of user_table_insert time_table_insert db "time_df ?df" cur] r1
    by simp
  moreover have "emitted user_table_insert cur2 = emitted user_table_insert cur1 @ user_df ?df"
    using r2 o2 by (auto intro: execute_rows_emitted_same)
  moreover have "emitted user_table_insert cur' = emitted user_table_insert cur2"
    using songplay_loop_emitted_other [of user_table_insert db ?df cur2] r3 by simp
  ultimately show ?thesis by simp
qed

lemma process_log_file_no_match_any_cursor:
  "process_log_file db_no_match [ev_free, ev_home, ev_free] cur =
     (Returned (),
      \<lparr>executed = executed cur @
         [(time_table_insert,
           [Time 2 37 38 0, PyInt 2, PyInt 12, PyInt 46, PyInt 11, PyInt 2018, PyStr ''Monday'']),
          (time_table_insert,
           [Time 2 37 38 0, PyInt 2, PyInt 12, PyInt 46, PyInt 11, PyInt 2018, PyStr ''Monday'']),
          (user_table_insert,
           [PyInt 10, PyStr ''Sylvie'', PyStr ''Cruz'', PyStr ''F'', PyStr ''free'']),
          (song_select, [PyStr ''Setanta matins'', PyStr ''Elena'', PyFloat 26958 (- 2)]),
          (songplay_table_insert,
           [Timestamp 1541990258000000000, PyInt 10, PyStr ''free'', PyNone, PyNone, PyInt 9,
            PyStr ''Washington'', PyStr ''Mozilla'']),
          (song_select, [PyStr ''Setanta matins'', PyStr ''Elena'', PyFloat 26958 (- 2)]),
          (songplay_table_insert,
           [Timestamp 1541990258000000000, PyInt 10, PyStr ''free'', PyNone, PyNone, PyInt 9,
            PyStr ''Washington'', PyStr ''Mozilla''])],
       pending = []\<rparr>)"
  unfolding process_log_file_def convert_ts_example Let_def time_df_example user_df_example
  by (simp add: songplay_body_def songplay_data_def execute_def fetchone_def
      db_no_match_def played_def ev_free_def)

section \<open>The frame of a song file and its first row\<close>


lemma those_Cons_None_head: "those (None # xs) = None"
  by simp




lemma length_python_objects_read_json_column:
  "length (python_objects (read_json_column float_of_str records c)) = length records"
proof -
  have len: "those xs = Some ys \<Longrightarrow> length ys = length xs" for xs :: "'a option list" and ys
    by (induction xs arbitrary: ys) (auto split: option.splits)
  show ?thesis
    by (auto simp: read_json_column_def split: option.splits dest!: len)
qed



lemma first_row_no_record: "cols \<noteq> [] \<Longrightarrow> first_row float_of_str [] cols = Inl KeyError"
  by (cases cols) (simp_all add: first_row_def getitem_def has_column_def)

lemma first_row_not_IndexError:
  assumes "cols \<noteq> []"
  shows "first_row float_of_str records cols \<noteq> Inl IndexError"
proof (cases records)
  case Nil
  with assms show ?thesis by (simp add: first_row_no_record)
next
  case (Cons r rest)
  show ?thesis
    unfolding Cons
    by (simp add: first_row_def getitem_def values0_def dot_values_def Let_def upt_conv_Cons
        del: upt_Suc)
qed








section \<open>The claims\<close>

text \<open>
  C2. The \<open>ts\<close> column after the conversion holds, for every event, the instant of the
  millisecond timestamp rounded up to a whole second: \<open>\<lceil>ms / 1000\<rceil>\<close> seconds, in
  nanoseconds; this instant is the start time of the event's songplay row.
  1541990258000 ms lies on a second and stays; 1541990258500 ms moves to 1541990259000 ms.
\<close>

theorem convert_ts_ceiling:
  "map ts (convert_ts df) = map (\<lambda>e. \<lceil>real_of_int (ts e) / 1000\<rceil> * 1000000000) df \<and>
   map (\<lambda>row. hd (songplay_data row songid artistid)) (convert_ts df) =
     map (\<lambda>e. Timestamp (\<lceil>real_of_int (ts e) / 1000\<rceil> * 1000000000)) df \<and>
   ceil_s (to_datetime_ms 1541990258000) = to_datetime_ms 1541990258000 \<and>
   ceil_s (to_datetime_ms 1541990258500) = to_datetime_ms 1541990259000"
proof -
  have "map ts (convert_ts df) = map (\<lambda>e. \<lceil>real_of_int (ts e) / 1000\<rceil> * 1000000000) df"
    by (simp add: convert_ts_def ceil_s_ceiling)
  moreover have "map (\<lambda>row. hd (songplay_data row songid artistid)) (convert_ts df) =
     map (\<lambda>e. Timestamp (\<lceil>real_of_int (ts e) / 1000\<rceil> * 1000000000)) df"
    by (simp add: convert_ts_def ceil_s_ceiling songplay_data_def)
  moreover have "ceil_s (to_datetime_ms 1541990258000) = to_datetime_ms 1541990258000"
    by (simp add: ceil_s_def to_datetime_ms_def)
  moreover have "ceil_s (to_datetime_ms 1541990258500) = to_datetime_ms 1541990259000"
    by (simp add: ceil_s_def to_datetime_ms_def)
  ultimately show ?thesis by blast
qed

text \<open>
  C3. The filtered frame is a subsequence of the frame read, it holds every event whose
  \<open>page\<close> is \<open>NextSong\<close> as often as the frame read does and no other event, and
  \<open>process_log_file\<close> does with a frame what it does with the filtered frame alone:
  it executes the rows of the time frame of the filtered events, then the rows of their
  user frame, then the songplay loop over them; when it returns, the cursor has
  executed the time rows and the user rows of the filtered events and one songplay
  insert for each of them, in their order.
\<close>

theorem filter_NextSong_exact:
  "subseq (filter_NextSong df) df \<and>
   (\<forall>e. count_list (filter_NextSong df) e =
          (if page e = PyStr ''NextSong'' then count_list df e else 0)) \<and>
   process_log_file db df cur = process_log_file db (filter_NextSong df) cur \<and>
   process_log_file db df cur =
     (case execute_rows db time_table_insert (time_df (convert_ts (filter_NextSong df))) cur of
        (Raised e, cur1) \<Rightarrow> (Raised e, cur1)
      | (Returned u, cur1) \<Rightarrow>
          (case execute_rows db user_table_insert (user_df (convert_ts (filter_NextSong df))) cur1 of
             (Raised e, cur2) \<Rightarrow> (Raised e, cur2)
           | (Returned u, cur2) \<Rightarrow> songplay_loop db (convert_ts (filter_NextSong df)) cur2)) \<and>
   (process_log_file db df cur = (Returned (), cur') \<longrightarrow>
      emitted time_table_insert cur' =
        emitted time_table_insert cur @ time_df (convert_ts (filter_NextSong df)) \<and>
      emitted user_table_insert cur' =
        emitted user_table_insert cur @ user_df (convert_ts (filter_NextSong df)) \<and>
      (\<exists>ids. length ids = length (filter_NextSong df) \<and>
         emitted songplay_table_insert cur' =
           emitted songplay_table_insert cur @
           map (\<lambda>(row, songid, artistid). songplay_data row songid artistid)
             (zip (convert_ts (filter_NextSong df)) ids)))"
proof -
  let ?df = "convert_ts (filter_NextSong df)"
  have "subseq (filter_NextSong df) df"
    by (simp add: filter_NextSong_def)
  moreover have "count_list (filter_NextSong df) e =
          (if page e = PyStr ''NextSong'' then count_list df e else 0)" for e
    unfolding filter_NextSong_def by (rule count_list_filter)
  moreover have "process_log_file db df cur = process_log_file db (filter_NextSong df) cur"
    by (simp add: process_log_file_def filter_NextSong_idem)
  moreover have "process_log_file db df cur =
     (case execute_rows db time_table_insert (time_df ?df) cur of
        (Raised e, cur1) \<Rightarrow> (Raised e, cur1)
      | (Returned u, cur1) \<Rightarrow>
          (case execute_rows db user_table_insert (user_df ?df) cur1 of
             (Raised e, cur2) \<Rightarrow> (Raised e, cur2)
           | (Returned u, cur2) \<Rightarrow> songplay_loop db ?df cur2))"
    by (simp add: process_log_file_def Let_def)
  moreover have "emitted time_table_insert cur' = emitted time_table_insert cur @ time_df ?df \<and>
      emitted user_table_insert cur' = emitted user_table_insert cur @ user_df ?df \<and>
      (\<exists>ids. length ids = length (filter_NextSong df) \<and>
         emitted songplay_table_insert cur' =
           emitted songplay_table_insert cur @
           map (\<lambda>(row, songid, artistid). songplay_data row songid artistid) (zip ?df ids))"
    if r: "process_log_file db df cur = (Returned (), cur')"
  proof -
    from process_log_file_Returned [OF r] obtain ids where
      "length ids = length ?df"
      "emitted time_table_insert cur' = emitted time_table_insert cur @ time_df ?df"
      "emitted songplay_table_insert cur' =
         emitted songplay_table_insert cur @
         map (\<lambda>(row, songid, artistid). songplay_data row songid artistid) (zip ?df ids)"
      by blast
    moreover note process_log_file_Returned_user [OF r]
    ultimately show ?thesis
      by (auto simp: length_convert_ts)
  qed
  ultimately show ?thesis by blast
qed

theorem filter_NextSong_exact_witness:
  "filter_NextSong [ev_free, ev_home, ev_paid] = [ev_free, ev_paid] \<and>
   emitted time_table_insert
     (snd (process_log_file db_no_match [ev_free, ev_home, ev_free] after_song_file)) =
     time_df [played, played] \<and>
   emitted user_table_insert
     (snd (process_log_file db_no_match [ev_free, ev_home, ev_free] after_song_file)) =
     user_df [played, played] \<and>
   emitted songplay_table_insert
     (snd (process_log_file db_no_match [ev_free, ev_home, ev_free] after_song_file)) =
     [songplay_data played PyNone PyNone, songplay_data played PyNone PyNone]"
proof -
  let ?cur = "snd (process_log_file db_no_match [ev_free, ev_home, ev_free] after_song_file)"
  have r: "process_log_file db_no_match [ev_free, ev_home, ev_free] after_song_file =
             (Returned (), ?cur)"
    by (simp add: process_log_file_no_match_any_cursor)
  have none: "emitted time_table_insert after_song_file = []"
    "emitted user_table_insert after_song_file = []"
    by (simp_all add: emitted_def after_song_file_def)
  note filter_NextSong_exact
    [of "[ev_free, ev_home, ev_free]" db_no_match after_song_file ?cur,
     THEN conjunct2, THEN conjunct2, THEN conjunct2, THEN conjunct2, THEN mp, OF r,
     unfolded convert_ts_example]
  then have "emitted time_table_insert ?cur =
          emitted time_table_insert after_song_file @ time_df [played, played]"
    and "emitted user_table_insert ?cur =
          emitted user_table_insert after_song_file @ user_df [played, played]"
    by blast+
  with none have "emitted time_table_insert ?cur = time_df [played, played]"
    and "emitted user_table_insert ?cur = user_df [played, played]"
    by simp_all
  moreover have "filter_NextSong [ev_free, ev_home, ev_paid] = [ev_free, ev_paid]"
    by (simp add: filter_NextSong_def ev_free_def ev_home_def ev_paid_def)
  moreover have "emitted songplay_table_insert ?cur =
     [songplay_data played PyNone PyNone, songplay_data played PyNone PyNone]"
    unfolding process_log_file_no_match_any_cursor
    by (simp add: emitted_def after_song_file_def songplay_data_def played_def ev_free_def)
  ultimately show ?thesis by blast
qed

text \<open>
  C4. The user frame holds the five columns \<open>userId, firstName, lastName, gender, level\<close>
  of the events, a row being kept exactly when no equal row stands before it: the rows
  are distinct, every event's row is among them, and they stand in the order of their
  first occurrence. Two rows are equal only when all five fields are, so two rows of
  one \<open>userId\<close> with different \<open>level\<close> are both kept.
\<close>

theorem user_df_first_occurrences:
  "user_df df =
     map (\<lambda>i. user_columns (df ! i))
       (filter (\<lambda>i. user_columns (df ! i) \<notin> user_columns ` set (take i df)) [0..<length df]) \<and>
   distinct (user_df df) \<and>
   set (user_df df) = user_columns ` set df \<and>
   (user_columns e = user_columns e' \<longleftrightarrow>
      userId e = userId e' \<and> firstName e = firstName e' \<and> lastName e = lastName e' \<and>
      gender e = gender e' \<and> level e = level e') \<and>
   user_columns e = [userId e, firstName e, lastName e, gender e, level e]"
proof -
  let ?rows = "map user_columns df"
  have "filter (\<lambda>i. ?rows ! i \<notin> set (take i ?rows)) [0..<length ?rows] =
        filter (\<lambda>i. user_columns (df ! i) \<notin> user_columns ` set (take i df)) [0..<length df]"
    by (rule filter_cong) (auto simp: take_map)
  moreover have "map (\<lambda>i. ?rows ! i)
          (filter (\<lambda>i. user_columns (df ! i) \<notin> user_columns ` set (take i df)) [0..<length df]) =
        map (\<lambda>i. user_columns (df ! i))
          (filter (\<lambda>i. user_columns (df ! i) \<notin> user_columns ` set (take i df)) [0..<length df])"
    by (rule map_cong) auto
  ultimately have "user_df df =
     map (\<lambda>i. user_columns (df ! i))
       (filter (\<lambda>i. user_columns (df ! i) \<notin> user_columns ` set (take i df)) [0..<length df])"
    unfolding user_df_def using drop_duplicates_first_occurrences [of ?rows] by simp
  moreover have "distinct (user_df df)"
    by (simp add: user_df_def distinct_drop_duplicates)
  moreover have "set (user_df df) = user_columns ` set df"
    by (simp add: user_df_def set_drop_duplicates)
  moreover have "user_columns e = user_columns e' \<longleftrightarrow>
      userId e = userId e' \<and> firstName e = firstName e' \<and> lastName e = lastName e' \<and>
      gender e = gender e' \<and> level e = level e'"
    by (simp add: user_columns_def)
  moreover have "user_columns e = [userId e, firstName e, lastName e, gender e, level e]"
    by (simp add: user_columns_def)
  ultimately show ?thesis by blast
qed

theorem user_df_first_occurrences_witness:
  "user_df [ev_free, ev_free, ev_paid, ev_free] =
     [[PyInt 10, PyStr ''Sylvie'', PyStr ''Cruz'', PyStr ''F'', PyStr ''free''],
      [PyInt 10, PyStr ''Sylvie'', PyStr ''Cruz'', PyStr ''F'', PyStr ''paid'']]"
  using user_df_first_occurrences [of "[ev_free, ev_free, ev_paid, ev_free]" ev_free ev_paid]
  by (simp add: user_df_def user_columns_def ev_free_def ev_paid_def)

text \<open>
  C5. The time frame has one row per filtered event, in the order of the events, each
  row read off the event's own timestamp, whether or not two events share one; and
  when the database accepts them, the cursor executes one \<open>time_table_insert\<close> per
  row, in that order.
\<close>

theorem time_df_one_row_per_event:
  "length (time_df (convert_ts (filter_NextSong df))) = length (filter_NextSong df) \<and>
   time_df (convert_ts (filter_NextSong df)) =
     map (\<lambda>e. [dt_time (ts e), PyInt (dt_hour (ts e)), PyInt (dt_day (ts e)),
               PyInt (dt_week (ts e)), PyInt (dt_month (ts e)), PyInt (dt_year (ts e)),
               PyStr (dt_day_name (ts e))])
       (convert_ts (filter_NextSong df)) \<and>
   (execute_rows db time_table_insert (time_df (convert_ts (filter_NextSong df))) cur =
      (Returned (), cur1) \<longrightarrow>
    emitted time_table_insert (snd (process_log_file db df cur)) =
      emitted time_table_insert cur @ time_df (convert_ts (filter_NextSong df)))"
proof -
  let ?df = "convert_ts (filter_NextSong df)"
  have "length (time_df ?df) = length (filter_NextSong df)"
    by (simp add: time_df_rows length_convert_ts)
  moreover note time_df_rows [of ?df]
  moreover have "emitted time_table_insert (snd (process_log_file db df cur)) =
      emitted time_table_insert cur @ time_df ?df"
    if "execute_rows db time_table_insert (time_df ?df) cur = (Returned (), cur1)"
  proof -
    have "emitted time_table_insert cur1 = emitted time_table_insert cur @ time_df ?df"
      using that by (rule execute_rows_emitted_same)
    with that show ?thesis
      by (simp add: process_log_file_emitted_time)
  qed
  ultimately show ?thesis by blast
qed

theorem time_df_one_row_per_event_witness:
  "emitted time_table_insert
     (snd (process_log_file db_no_match [ev_free, ev_home, ev_free] fresh_cursor)) =
     [[Time 2 37 38 0, PyInt 2, PyInt 12, PyInt 46, PyInt 11, PyInt 2018, PyStr ''Monday''],
      [Time 2 37 38 0, PyInt 2, PyInt 12, PyInt 46, PyInt 11, PyInt 2018, PyStr ''Monday'']]"
proof -
  have h: "execute_rows db_no_match time_table_insert
             (time_df (convert_ts (filter_NextSong [ev_free, ev_home, ev_free]))) fresh_cursor =
           (Returned (),
            \<lparr>executed =
               [(time_table_insert,
                 [Time 2 37 38 0, PyInt 2, PyInt 12, PyInt 46, PyInt 11, PyInt 2018, PyStr ''Monday'']),
                (time_table_insert,
                 [Time 2 37 38 0, PyInt 2, PyInt 12, PyInt 46, PyInt 11, PyInt 2018, PyStr ''Monday''])],
             pending = []\<rparr>)"
    by (simp only: convert_ts_example execute_rows_time_example)
  from time_df_one_row_per_event
    [of "[ev_free, ev_home, ev_free]" db_no_match fresh_cursor, THEN conjunct2, THEN conjunct2,
     THEN mp, OF h]
  show ?thesis
    by (simp add: convert_ts_example time_df_example emitted_def fresh_cursor_def)
qed

text \<open>
  C6, as the claim states it, fails: the first parameter of a songplay insert is the
  \<open>Timestamp\<close> of the event, the first parameter of a time insert is its
  \<open>datetime.time\<close> (\<open>df['ts'].dt.time\<close>), and the two are never equal.
\<close>

theorem songplay_start_time_is_a_timestamp_counterexample:
  "emitted songplay_table_insert
     (snd (process_log_file db_no_match [ev_free, ev_home, ev_free] fresh_cursor)) =
     [[Timestamp 1541990258000000000, PyInt 10, PyStr ''free'', PyNone, PyNone, PyInt 9,
       PyStr ''Washington'', PyStr ''Mozilla''],
      [Timestamp 1541990258000000000, PyInt 10, PyStr ''free'', PyNone, PyNone, PyInt 9,
       PyStr ''Washington'', PyStr ''Mozilla'']] \<and>
   emitted time_table_insert
     (snd (process_log_file db_no_match [ev_free, ev_home, ev_free] fresh_cursor)) =
     [[Time 2 37 38 0, PyInt 2, PyInt 12, PyInt 46, PyInt 11, PyInt 2018, PyStr ''Monday''],
      [Time 2 37 38 0, PyInt 2, PyInt 12, PyInt 46, PyInt 11, PyInt 2018, PyStr ''Monday'']] \<and>
   hd (hd (emitted songplay_table_insert
     (snd (process_log_file db_no_match [ev_free, ev_home, ev_free] fresh_cursor)))) \<notin>
   set (map hd (emitted time_table_insert
     (snd (process_log_file db_no_match [ev_free, ev_home, ev_free] fresh_cursor))))"
  by (simp add: process_log_file_no_match_example emitted_def)

text \<open>
  C6, amended. Whatever the cursor has executed before and however the call ends, the
  songplay inserts that \<open>process_log_file\<close> executes are at most as many as the time
  inserts it executes, and the start time of the i-th of these songplay inserts is a
  timestamp whose time of day (hour, minute, second, microsecond) is the start time of
  the i-th of these time inserts, the one of the same event.
\<close>

theorem songplay_start_time_time_of_day:
  "\<exists>times facts.
     emitted time_table_insert (snd (process_log_file db df cur)) =
       emitted time_table_insert cur @ times \<and>
     emitted songplay_table_insert (snd (process_log_file db df cur)) =
       emitted songplay_table_insert cur @ facts \<and>
     length facts \<le> length times \<and>
     (\<forall>i < length facts.
        \<exists>ns. hd (facts ! i) = Timestamp ns \<and>
             hd (times ! i) =
               Time (dt_hour ns) (dt_minute ns) (dt_second ns) (dt_microsecond ns))"
proof -
  let ?df = "convert_ts (filter_NextSong df)"
  let ?fact = "\<lambda>(row, songid, artistid). songplay_data row songid artistid"
  from process_log_file_emitted [of df db cur] obtain n ids where
    n: "n \<le> length ?df" and ids: "length ids \<le> n"
    and times: "emitted time_table_insert (snd (process_log_file db df cur)) =
       emitted time_table_insert cur @ take n (time_df ?df)"
    and facts: "emitted songplay_table_insert (snd (process_log_file db df cur)) =
       emitted songplay_table_insert cur @ map ?fact (zip ?df ids)"
    by blast
  let ?times = "take n (time_df ?df)"
  let ?facts = "map ?fact (zip ?df ids)"
  have len: "length ?facts \<le> length ?times"
    using n ids by (simp add: time_df_rows)
  have "\<exists>ns. hd (?facts ! i) = Timestamp ns \<and>
             hd (?times ! i) =
               Time (dt_hour ns) (dt_minute ns) (dt_second ns) (dt_microsecond ns)"
    if "i < length ?facts" for i
  proof -
    from that n ids have i: "i < length ?df" "i < length ids" "i < n"
      by simp_all
    obtain songid artistid where p: "ids ! i = (songid, artistid)"
      by (cases "ids ! i")
    have "hd (?facts ! i) = Timestamp (ts (?df ! i))"
      using i p by (simp add: songplay_data_def)
    moreover have "hd (?times ! i) = dt_time (ts (?df ! i))"
      using i by (simp add: time_df_rows)
    ultimately show ?thesis
      by (auto simp: dt_time_def)
  qed
  with times facts len show ?thesis by blast
qed

theorem songplay_start_time_time_of_day_witness:
  "emitted time_table_insert
     (snd (process_log_file db_no_match [ev_free, ev_home, ev_free] after_song_file)) =
     emitted time_table_insert after_song_file @
     [[Time 2 37 38 0, PyInt 2, PyInt 12, PyInt 46, PyInt 11, PyInt 2018, PyStr ''Monday''],
      [Time 2 37 38 0, PyInt 2, PyInt 12, PyInt 46, PyInt 11, PyInt 2018, PyStr ''Monday'']] \<and>
   emitted songplay_table_insert
     (snd (process_log_file db_no_match [ev_free, ev_home, ev_free] after_song_file)) =
     emitted songplay_table_insert after_song_file @
     [[Timestamp 1541990258000000000, PyInt 10, PyStr ''free'', PyNone, PyNone, PyInt 9,
       PyStr ''Washington'', PyStr ''Mozilla''],
      [Timestamp 1541990258000000000, PyInt 10, PyStr ''free'', PyNone, PyNone, PyInt 9,
       PyStr ''Washington'', PyStr ''Mozilla'']] \<and>
   Time 2 37 38 0 =
     Time (dt_hour 1541990258000000000) (dt_minute 1541990258000000000)
       (dt_second 1541990258000000000) (dt_microsecond 1541990258000000000) \<and>
   (\<exists>times facts.
     emitted time_table_insert
       (snd (process_log_file db_no_match [ev_free, ev_home, ev_free] after_song_file)) =
       emitted time_table_insert after_song_file @ times \<and>
     emitted songplay_table_insert
       (snd (process_log_file db_no_match [ev_free, ev_home, ev_free] after_song_file)) =
       emitted songplay_table_insert after_song_file @ facts \<and>
     length facts \<le> length times \<and>
     (\<forall>i < length facts.
        \<exists>ns. hd (facts ! i) = Timestamp ns \<and>
             hd (times ! i) =
               Time (dt_hour ns) (dt_minute ns) (dt_second ns) (dt_microsecond ns)))"
proof -
  have "emitted time_table_insert
     (snd (process_log_file db_no_match [ev_free, ev_home, ev_free] after_song_file)) =
     emitted time_table_insert after_song_file @
     [[Time 2 37 38 0, PyInt 2, PyInt 12, PyInt 46, PyInt 11, PyInt 2018, PyStr ''Monday''],
      [Time 2 37 38 0, PyInt 2, PyInt 12, PyInt 46, PyInt 11, PyInt 2018, PyStr ''Monday'']]"
    unfolding process_log_file_no_match_any_cursor by (simp add: emitted_def)
  moreover have "emitted songplay_table_insert
     (snd (process_log_file db_no_match [ev_free, ev_home, ev_free] after_song_file)) =
     emitted songplay_table_insert after_song_file @
     [[Timestamp 1541990258000000000, PyInt 10, PyStr ''free'', PyNone, PyNone, PyInt 9,
       PyStr ''Washington'', PyStr ''Mozilla''],
      [Timestamp 1541990258000000000, PyInt 10, PyStr ''free'', PyNone, PyNone, PyInt 9,
       PyStr ''Washington'', PyStr ''Mozilla'']]"
    unfolding process_log_file_no_match_any_cursor by (simp add: emitted_def)
  moreover have "Time 2 37 38 0 =
     Time (dt_hour 1541990258000000000) (dt_minute 1541990258000000000)
       (dt_second 1541990258000000000) (dt_microsecond 1541990258000000000)"
    using dt_time_example by (simp add: dt_time_def)
  moreover note songplay_start_time_time_of_day
    [of db_no_match "[ev_free, ev_home, ev_free]" after_song_file]
  ultimately show ?thesis by blast
qed

text \<open>
  C1, as the claim states it, fails on an ambiguous lookup: \<open>cur.fetchone()\<close> returns
  the first row of the result, so with two matching songs the fact carries the ids of
  the first one, not null ids.
\<close>

theorem songplay_ambiguous_match_counterexample:
  "db_two_matches [] song_select [song played, artist played, length_f played] =
     Inr [[PyStr ''SOZCTXZ12AB0182364'', PyStr ''AR5KOSW1187FB35FF4''],
          [PyStr ''SOZCTXZ12AB0182365'', PyStr ''AR5KOSW1187FB35FF5'']] \<and>
   songplay_body db_two_matches played fresh_cursor =
     (Returned (),
      \<lparr>executed =
         [(song_select, [PyStr ''Setanta matins'', PyStr ''Elena'', PyFloat 26958 (- 2)]),
          (songplay_table_insert,
           [Timestamp 1541990258000000000, PyInt 10, PyStr ''free'',
            PyStr ''SOZCTXZ12AB0182364'', PyStr ''AR5KOSW1187FB35FF4'', PyInt 9,
            PyStr ''Washington'', PyStr ''Mozilla''])],
       pending = []\<rparr>) \<and>
   emitted songplay_table_insert
     (snd (process_log_file db_two_matches [ev_free, ev_home, ev_free] fresh_cursor)) =
     [[Timestamp 1541990258000000000, PyInt 10, PyStr ''free'',
       PyStr ''SOZCTXZ12AB0182364'', PyStr ''AR5KOSW1187FB35FF4'', PyInt 9,
       PyStr ''Washington'', PyStr ''Mozilla''],
      [Timestamp 1541990258000000000, PyInt 10, PyStr ''free'',
       PyStr ''SOZCTXZ12AB0182364'', PyStr ''AR5KOSW1187FB35FF4'', PyInt 9,
       PyStr ''Washington'', PyStr ''Mozilla'']] \<and>
   PyStr ''SOZCTXZ12AB0182364'' \<noteq> PyNone"
proof -
  have "db_two_matches [] song_select [song played, artist played, length_f played] =
     Inr [[PyStr ''SOZCTXZ12AB0182364'', PyStr ''AR5KOSW1187FB35FF4''],
          [PyStr ''SOZCTXZ12AB0182365'', PyStr ''AR5KOSW1187FB35FF5'']]"
    by (simp add: db_two_matches_def played_def ev_free_def)
  moreover have "songplay_body db_two_matches played fresh_cursor =
     (Returned (),
      \<lparr>executed =
         [(song_select, [PyStr ''Setanta matins'', PyStr ''Elena'', PyFloat 26958 (- 2)]),
          (songplay_table_insert,
           [Timestamp 1541990258000000000, PyInt 10, PyStr ''free'',
            PyStr ''SOZCTXZ12AB0182364'', PyStr ''AR5KOSW1187FB35FF4'', PyInt 9,
            PyStr ''Washington'', PyStr ''Mozilla''])],
       pending = []\<rparr>)"
    by (simp add: songplay_body_def songplay_data_def execute_def fetchone_def
        db_two_matches_def played_def ev_free_def fresh_cursor_def)
  moreover have "emitted songplay_table_insert
     (snd (process_log_file db_two_matches [ev_free, ev_home, ev_free] fresh_cursor)) =
     [[Timestamp 1541990258000000000, PyInt 10, PyStr ''free'',
       PyStr ''SOZCTXZ12AB0182364'', PyStr ''AR5KOSW1187FB35FF4'', PyInt 9,
       PyStr ''Washington'', PyStr ''Mozilla''],
      [Timestamp 1541990258000000000, PyInt 10, PyStr ''free'',
       PyStr ''SOZCTXZ12AB0182364'', PyStr ''AR5KOSW1187FB35FF4'', PyInt 9,
       PyStr ''Washington'', PyStr ''Mozilla'']]"
    unfolding process_log_file_two_matches_example by (simp add: emitted_def)
  ultimately show ?thesis by simp
qed

text \<open>
  C1, amended. In the body of the songplay loop: when the lookup on \<open>(song, artist,
  length)\<close> yields at least one row, the songplay insert is executed with the
  \<open>(song_id, artist_id)\<close> of the first row (of the only row, when there is exactly one);
  when it yields no row, with \<open>None\<close> for both. In both cases the other six parameters
  are the event's \<open>ts, userId, level, sessionId, location, userAgent\<close>.
\<close>

theorem songplay_body_binds_first_match:
  "(db (executed cur) song_select [song row, artist row, length_f row] =
      Inr ([songid, artistid] # others) \<longrightarrow>
    songplay_body db row cur =
      execute db songplay_table_insert
        [Timestamp (ts row), userId row, level row, songid, artistid,
         sessionId row, location row, userAgent row]
        \<lparr>executed = executed cur @ [(song_select, [song row, artist row, length_f row])],
         pending = others\<rparr>) \<and>
   (db (executed cur) song_select [song row, artist row, length_f row] = Inr [] \<longrightarrow>
    songplay_body db row cur =
      execute db songplay_table_insert
        [Timestamp (ts row), userId row, level row, PyNone, PyNone,
         sessionId row, location row, userAgent row]
        \<lparr>executed = executed cur @ [(song_select, [song row, artist row, length_f row])],
         pending = []\<rparr>)"
  using songplay_body_first_match [of db cur row songid artistid others]
    songplay_body_no_match [of db cur row]
  by (simp add: songplay_data_def)

theorem songplay_body_binds_first_match_witness:
  "songplay_body db_one_match played fresh_cursor =
     (Returned (),
      \<lparr>executed =
         [(song_select, [PyStr ''Setanta matins'', PyStr ''Elena'', PyFloat 26958 (- 2)]),
          (songplay_table_insert,
           [Timestamp 1541990258000000000, PyInt 10, PyStr ''free'',
            PyStr ''SOZCTXZ12AB0182364'', PyStr ''AR5KOSW1187FB35FF4'', PyInt 9,
            PyStr ''Washington'', PyStr ''Mozilla''])],
       pending = []\<rparr>) \<and>
   songplay_body db_no_match played fresh_cursor =
     (Returned (),
      \<lparr>executed =
         [(song_select, [PyStr ''Setanta matins'', PyStr ''Elena'', PyFloat 26958 (- 2)]),
          (songplay_table_insert,
           [Timestamp 1541990258000000000, PyInt 10, PyStr ''free'', PyNone, PyNone, PyInt 9,
            PyStr ''Washington'', PyStr ''Mozilla''])],
       pending = []\<rparr>)"
proof -
  have one: "db_one_match (executed fresh_cursor) song_select
               [song played, artist played, length_f played] =
             Inr ([PyStr ''SOZCTXZ12AB0182364'', PyStr ''AR5KOSW1187FB35FF4''] # [])"
    by (simp add: db_one_match_def played_def ev_free_def)
  have none: "db_no_match (executed fresh_cursor) song_select
               [song played, artist played, length_f played] = Inr []"
    by (simp add: db_no_match_def)
  from songplay_body_binds_first_match
    [of db_one_match fresh_cursor played "PyStr ''SOZCTXZ12AB0182364''"
      "PyStr ''AR5KOSW1187FB35FF4''" "[]", THEN conjunct1, THEN mp, OF one]
  have "songplay_body db_one_match played fresh_cursor =
     (Returned (),
      \<lparr>executed =
         [(song_select, [PyStr ''Setanta matins'', PyStr ''Elena'', PyFloat 26958 (- 2)]),
          (songplay_table_insert,
           [Timestamp 1541990258000000000, PyInt 10, PyStr ''free'',
            PyStr ''SOZCTXZ12AB0182364'', PyStr ''AR5KOSW1187FB35FF4'', PyInt 9,
            PyStr ''Washington'', PyStr ''Mozilla''])],
       pending = []\<rparr>)"
    by (simp add: execute_def db_one_match_def played_def ev_free_def fresh_cursor_def)
  moreover from songplay_body_binds_first_match
    [of db_no_match fresh_cursor played, THEN conjunct2, THEN mp, OF none]
  have "songplay_body db_no_match played fresh_cursor =
     (Returned (),
      \<lparr>executed =
         [(song_select, [PyStr ''Setanta matins'', PyStr ''Elena'', PyFloat 26958 (- 2)]),
          (songplay_table_insert,
           [Timestamp 1541990258000000000, PyInt 10, PyStr ''free'', PyNone, PyNone, PyInt 9,
            PyStr ''Washington'', PyStr ''Mozilla''])],
       pending = []\<rparr>)"
    by (simp add: execute_def db_no_match_def played_def ev_free_def fresh_cursor_def)
  ultimately show ?thesis by blast
qed

text \<open>
  C8. When the time rows and the user rows are written, the loop has gone through the
  events before \<open>row\<close>, and the lookup for \<open>row\<close> raises, then \<open>process_log_file\<close>
  raises that error, and the songplay inserts executed are one for each event before
  \<open>row\<close>: none for \<open>row\<close>, none for a later event.
\<close>

theorem lookup_failure_aborts:
  assumes "convert_ts (filter_NextSong df) = pre @ row # post"
    and "execute_rows db time_table_insert (time_df (pre @ row # post)) cur = (Returned (), cur1)"
    and "execute_rows db user_table_insert (user_df (pre @ row # post)) cur1 = (Returned (), cur2)"
    and "songplay_loop db pre cur2 = (Returned (), cur3)"
    and "db (executed cur3) song_select [song row, artist row, length_f row] = Inl e"
  shows "process_log_file db df cur = (Raised e, cur3) \<and>
     (\<exists>ids. length ids = length pre \<and>
        emitted songplay_table_insert cur3 =
          emitted songplay_table_insert cur @
          map (\<lambda>(row, songid, artistid). songplay_data row songid artistid) (zip pre ids))"
proof -
  have "songplay_loop db (pre @ row # post) cur2 = (Raised e, cur3)"
    using assms(4,5) by (rule songplay_loop_lookup_raises)
  then have "process_log_file db df cur = (Raised e, cur3)"
    using assms(1,2,3) by (simp add: process_log_file_def)
  moreover have "emitted songplay_table_insert cur1 = emitted songplay_table_insert cur"
    using execute_rows_emitted_other
      [of songplay_table_insert time_table_insert db "time_df (pre @ row # post)" cur] assms(2)
    by simp
  moreover have "emitted songplay_table_insert cur2 = emitted songplay_table_insert cur1"
    using execute_rows_emitted_other
      [of songplay_table_insert user_table_insert db "user_df (pre @ row # post)" cur1] assms(3)
    by simp
  moreover from songplay_loop_Returned [OF assms(4)] obtain ids where
    "length ids = length pre"
    "emitted songplay_table_insert cur3 =
       emitted songplay_table_insert cur2 @
       map (\<lambda>(row, songid, artistid). songplay_data row songid artistid) (zip pre ids)"
    by blast
  ultimately show ?thesis by auto
qed

theorem lookup_failure_aborts_witness:
  "process_log_file db_second_lookup_raises [ev_free, ev_home, ev_free] fresh_cursor =
     (Raised DatabaseError,
      \<lparr>executed =
         [(time_table_insert,
           [Time 2 37 38 0, PyInt 2, PyInt 12, PyInt 46, PyInt 11, PyInt 2018, PyStr ''Monday'']),
          (time_table_insert,
           [Time 2 37 38 0, PyInt 2, PyInt 12, PyInt 46, PyInt 11, PyInt 2018, PyStr ''Monday'']),
          (user_table_insert,
           [PyInt 10, PyStr ''Sylvie'', PyStr ''Cruz'', PyStr ''F'', PyStr ''free'']),
          (song_select, [PyStr ''Setanta matins'', PyStr ''Elena'', PyFloat 26958 (- 2)]),
          (songplay_table_insert,
           [Timestamp 1541990258000000000, PyInt 10, PyStr ''free'', PyNone, PyNone, PyInt 9,
            PyStr ''Washington'', PyStr ''Mozilla''])],
       pending = []\<rparr>)"
proof -
  let ?time = "(time_table_insert,
      [Time 2 37 38 0, PyInt 2, PyInt 12, PyInt 46, PyInt 11, PyInt 2018, PyStr ''Monday''])"
  let ?user = "(user_table_insert,
      [PyInt 10, PyStr ''Sylvie'', PyStr ''Cruz'', PyStr ''F'', PyStr ''free''])"
  let ?select = "(song_select, [PyStr ''Setanta matins'', PyStr ''Elena'', PyFloat 26958 (- 2)])"
  let ?fact = "(songplay_table_insert,
      [Timestamp 1541990258000000000, PyInt 10, PyStr ''free'', PyNone, PyNone, PyInt 9,
       PyStr ''Washington'', PyStr ''Mozilla''])"
  let ?cur1 = "\<lparr>executed = [?time, ?time], pending = []\<rparr>"
  let ?cur2 = "\<lparr>executed = [?time, ?time, ?user], pending = []\<rparr>"
  let ?cur3 = "\<lparr>executed = [?time, ?time, ?user, ?select, ?fact], pending = []\<rparr>"
  have h1: "convert_ts (filter_NextSong [ev_free, ev_home, ev_free]) = [played] @ played # []"
    by (simp add: convert_ts_example)
  have h2: "execute_rows db_second_lookup_raises time_table_insert
              (time_df ([played] @ played # [])) fresh_cursor = (Returned (), ?cur1)"
    by (simp add: time_df_example execute_def db_second_lookup_raises_def fresh_cursor_def)
  have h3: "execute_rows db_second_lookup_raises user_table_insert
              (user_df ([played] @ played # [])) ?cur1 = (Returned (), ?cur2)"
    by (simp add: user_df_example execute_def db_second_lookup_raises_def)
  have h4: "songplay_loop db_second_lookup_raises [played] ?cur2 = (Returned (), ?cur3)"
    by (simp add: songplay_body_def songplay_data_def execute_def fetchone_def
        db_second_lookup_raises_def played_def ev_free_def)
  have h5: "db_second_lookup_raises (executed ?cur3) song_select
              [song played, artist played, length_f played] = Inl DatabaseError"
    by (simp add: db_second_lookup_raises_def)
  from lookup_failure_aborts [OF h1 h2 h3 h4 h5] show ?thesis
    by (rule conjunct1)
qed




text \<open>
  C10, as the claim states it, fails in its cause: on a file without records the error
  is the \<open>KeyError\<close> of the column selection, not an index out of bounds.
\<close>

theorem process_song_file_no_record_counterexample:
  "process_song_file float_of_digits db_no_match [] fresh_cursor = (Raised KeyError, fresh_cursor) \<and>
   first_row float_of_digits [] song_columns = Inl KeyError \<and>
   KeyError \<noteq> IndexError"
  by (simp add: process_song_file_def first_row_def getitem_def has_column_def song_columns_def)

text \<open>
  C10, amended. On a file without records \<open>process_song_file\<close> raises \<open>KeyError\<close> and
  the cursor has executed nothing. The access to the first row is never out of bounds,
  whatever the file: the selection of the song columns raises \<open>KeyError\<close> exactly when
  one of them is the key of no record, and a frame with these columns has a row.
\<close>

theorem process_song_file_no_record:
  "process_song_file float_of_str db [] cur = (Raised KeyError, cur) \<and>
   first_row float_of_str records song_columns \<noteq> Inl IndexError \<and>
   first_row float_of_str records artist_columns \<noteq> Inl IndexError \<and>
   (first_row float_of_str records song_columns = Inl KeyError) =
     (\<not> list_all (\<lambda>c. list_ex (\<lambda>r. r c \<noteq> None) records) song_columns)"
proof -
  have "process_song_file float_of_str db [] cur = (Raised KeyError, cur)"
    by (simp add: process_song_file_def first_row_no_record song_columns_def)
  moreover have "first_row float_of_str records song_columns \<noteq> Inl IndexError"
    by (rule first_row_not_IndexError) (simp add: song_columns_def)
  moreover have "first_row float_of_str records artist_columns \<noteq> Inl IndexError"
    by (rule first_row_not_IndexError) (simp add: artist_columns_def)
  moreover have "(first_row float_of_str records song_columns = Inl KeyError) =
     (\<not> list_all (\<lambda>c. list_ex (\<lambda>r. r c \<noteq> None) records) song_columns)"
  proof -
    have "(first_row float_of_str records song_columns = Inl KeyError) =
      (\<not> list_all (has_column records) song_columns)"
      by (simp add: first_row_def getitem_def values0_def split: list.splits)
    moreover have "has_column records = (\<lambda>c. list_ex (\<lambda>r. r c \<noteq> None) records)"
      by (rule ext) (simp add: has_column_def)
    ultimately show ?thesis by simp
  qed
  ultimately show ?thesis by blast
qed

end
